theory Spec2Isabelle
  imports Complex_Main "HOL-Library.AList" "HOL-Library.Word"
begin

section \<open>Data exchanged with the collaborators of main.js\<close>

text \<open>
  A string of the page is a list of UTF-16 code units, as in JavaScript. A string literal
  of main.js is written with \<open>js\<close>, which gives the code units of its (ASCII) characters.
  The objects main.js receives from its collaborators are records whose optional fields
  are options: \<open>None\<close> is an absent (\<open>undefined\<close>) or \<open>null\<close> field, which JavaScript reads as
  falsy, and \<open>Some\<close> is a present object or string.
\<close>

type_synonym jstring = "16 word list"

definition js :: "string \<Rightarrow> jstring" where
  "js cs = map (\<lambda>c. of_nat (of_char c)) cs"

text \<open>One element of \<open>data.modelTurn.parts\<close> of a \<open>content\<close> event. A function call and a
  function response are objects (always truthy when present); they are kept by their JSON
  text.\<close>

record part =
  partText :: "jstring option"
  functionCall :: "jstring option"
  functionResponse :: "jstring option"

text \<open>The payload of a \<open>content\<close> event: \<open>data.modelTurn\<close> is absent or an object whose
  \<open>parts\<close> is an array.\<close>

record content =
  modelTurn :: "part list option"

text \<open>One element of the array handed to \<open>client.sendRealtimeInput\<close>; \<open>interrupt\<close> is
  \<open>None\<close> when the object literal has no such field.\<close>

record chunk =
  mimeType :: jstring
  data :: jstring
  interrupt :: "bool option"

text \<open>The \<open>config\<close> object literal built by \<open>connectToWebsocket\<close>.\<close>

record config =
  model :: jstring
  responseModalities :: jstring
  languageCode :: jstring
  voiceName :: jstring
  systemInstruction :: jstring

text \<open>Everything main.js does to its collaborators (the transport client, the logger, the
  DOM presentation), in the order it does it.\<close>

datatype effect =
    LogMessage jstring jstring
  | LoggerInfo jstring
  | LoggerError jstring
  | DomSet jstring jstring jstring
  | ClassAdd jstring jstring
  | ClassRemove jstring jstring
  | UpdateAudioVisualizer rat bool
  | ClientConnect config jstring
  | ClientDisconnect
  | ClientSend jstring
  | ClientSendRealtimeInput "chunk list"

section \<open>The Playback Sink and the audio context\<close>

datatype ctx_state = Suspended | Running

text \<open>Modelled from the spec: the class \<open>AudioStreamer\<close> of audio/audio-streamer.js, which
  is not among the sources. Section 4.4 of the specification gives its contract: enqueue
  appends to an ordered play queue, stop halts playback at once and discards the queue.\<close>

record streamer =
  playQueue :: "8 word list list"
  playing :: bool

definition new_streamer :: streamer where
  "new_streamer = \<lparr>playQueue = [], playing = False\<rparr>"

definition addPCM16 :: "8 word list \<Rightarrow> streamer \<Rightarrow> streamer" where
  "addPCM16 pcm st = st\<lparr>playQueue := playQueue st @ [pcm], playing := True\<rparr>"

definition streamer_stop :: "streamer \<Rightarrow> streamer" where
  "streamer_stop st = st\<lparr>playQueue := [], playing := False\<rparr>"

section \<open>The module state\<close>

text \<open>
  The ten \<open>let\<close> variables of main.js (lines 109 to 118), the values of the input controls
  it reads, \<open>CONFIG.API.MODEL_NAME\<close>, the local storage, and the collaborators' objects.
  An \<open>AudioRecorder\<close>, \<open>VideoManager\<close> or \<open>ScreenRecorder\<close> object is a number, handed out by
  \<open>nextId\<close> at each \<open>new\<close>; the variable holds \<open>None\<close> for \<open>null\<close>.
\<close>

text \<open>
  Modelled from the spec: the producer classes of audio/audio-recorder.js,
  video/video-manager.js and video/screen-recorder.js, which are not among the sources.
  By section 4.3 a producer invokes its callback from a successful \<open>start\<close> until \<open>stop\<close>;
  \<open>liveRecorders\<close>, \<open>liveVideo\<close> and \<open>liveScreen\<close> hold the producers in that condition.
  A \<open>start\<close> that rejects leaves its producer as it was, and \<open>stop\<close> never throws.
\<close>

record state =
  isRecording :: bool
  audioStreamer :: "streamer option"
  audioCtx :: "ctx_state option"
  isConnected :: bool
  audioRecorder :: "nat option"
  isVideoActive :: bool
  videoManager :: "nat option"
  isScreenSharing :: bool
  screenRecorder :: "nat option"
  isUsingTool :: bool
  messageInput :: jstring
  apiKeyInput :: jstring
  voiceSelect :: jstring
  languageSelect :: jstring
  fpsInput :: jstring
  systemInstructionInput :: jstring
  responseTypeSelect :: jstring
  modelName :: jstring
  localStorage :: "(jstring \<times> jstring) list"
  nextId :: nat
  liveRecorders :: "nat set"
  liveVideo :: "nat set"
  liveScreen :: "nat set"
  effects :: "effect list"

definition emit :: "effect \<Rightarrow> state \<Rightarrow> state" where
  "emit e s = s\<lparr>effects := effects s @ [e]\<rparr>"

definition setItem :: "jstring \<Rightarrow> jstring \<Rightarrow> state \<Rightarrow> state" where
  "setItem k v s = s\<lparr>localStorage := AList.update k v (localStorage s)\<rparr>"

text \<open>\<open>logMessage(message, type)\<close> appends one entry to the log container.\<close>

definition logMessage :: "jstring \<Rightarrow> jstring \<Rightarrow> state \<Rightarrow> state" where
  "logMessage message type s = emit (LogMessage message type) s"

text \<open>The module variables as declared, before any handler has run; the input controls are
  empty, nothing is stored and nothing has been done yet.\<close>

definition init_state :: state where
  "init_state = \<lparr>isRecording = False, audioStreamer = None, audioCtx = None,
     isConnected = False, audioRecorder = None, isVideoActive = False, videoManager = None,
     isScreenSharing = False, screenRecorder = None, isUsingTool = False,
     messageInput = [], apiKeyInput = [], voiceSelect = [], languageSelect = [],
     fpsInput = [], systemInstructionInput = [], responseTypeSelect = [], modelName = [],
     localStorage = [], nextId = 0, liveRecorders = {}, liveVideo = {}, liveScreen = {},
     effects = []\<rparr>"

text \<open>The statements of a function body, run in the order they are written.\<close>

definition do_all :: "(state \<Rightarrow> state) list \<Rightarrow> state \<Rightarrow> state" where
  "do_all fs s = fold (\<lambda>f. f) fs s"

section \<open>Audio set-up and the microphone (lines 163 to 274)\<close>

definition updateMicIcon :: "state \<Rightarrow> state" where
  "updateMicIcon s = do_all
     [emit (DomSet (js ''micIcon'') (js ''textContent'') (if isRecording s then (js ''mic_off'') else (js ''mic''))),
      emit (DomSet (js ''micButton'') (js ''style.backgroundColor'')
              (if isRecording s then (js ''#ea4335'') else (js ''#4285f4'')))] s"

definition updateAudioVisualizer :: "rat \<Rightarrow> bool \<Rightarrow> state \<Rightarrow> state" where
  "updateAudioVisualizer volume isInput s = emit (UpdateAudioVisualizer volume isInput) s"

text \<open>What the browser answers during \<open>ensureAudioInitialized\<close>: whether \<open>new AudioContext()\<close>
  throws (with which message), whether a new context starts suspended, and whether
  \<open>addWorklet\<close> rejects.\<close>

record init_env =
  newAudioContextThrows :: "jstring option"
  newContextSuspended :: bool
  addWorkletRejects :: "jstring option"

text \<open>The result is the message of the error thrown, if any, and the state reached: the
  assignments made before a throw stay.\<close>

definition ensureAudioInitialized :: "init_env \<Rightarrow> state \<Rightarrow> jstring option \<times> state" where
  "ensureAudioInitialized env s =
     (case (if audioCtx s = None
            then (case newAudioContextThrows env of
                    Some m \<Rightarrow> Inl m
                  | None \<Rightarrow> Inr (s\<lparr>audioCtx :=
                               Some (if newContextSuspended env then Suspended else Running)\<rparr>))
            else Inr s) of
        Inl m \<Rightarrow> (Some m, s)
      | Inr s1 \<Rightarrow>
          (if audioStreamer s1 = None
           then (let s2 = s1\<lparr>audioStreamer := Some new_streamer\<rparr>
                 in (case addWorkletRejects env of
                       Some m \<Rightarrow> (Some m, s2)
                     | None \<Rightarrow> (None, s2)))
           else (None, s1)))"

text \<open>\<open>audioCtx.resume()\<close> is taken to resolve.\<close>

definition resumeAudioContext :: "state \<Rightarrow> state" where
  "resumeAudioContext s =
     (if audioCtx s = Some Suspended then s\<lparr>audioCtx := Some Running\<rparr> else s)"

text \<open>What the browser answers during \<open>handleMicToggle\<close>: the set-up above, and whether
  \<open>audioRecorder.start\<close>, \<open>getUserMedia\<close> and \<open>audioStreamer.resume\<close> reject.\<close>

record mic_env =
  micInit :: init_env
  recorderStartRejects :: "jstring option"
  getUserMediaRejects :: "jstring option"
  streamerResumeRejects :: "jstring option"

text \<open>The \<open>catch\<close> block of \<open>handleMicToggle\<close>.\<close>

definition mic_catch :: "jstring \<Rightarrow> state \<Rightarrow> state" where
  "mic_catch m s = do_all
     [emit (LoggerError (js ''Microphone error:'')),
      logMessage (js ''Error: '' @ m) (js ''system''),
      (\<lambda>s. s\<lparr>isRecording := False\<rparr>),
      updateMicIcon] s"

definition recorder_stop :: "state \<Rightarrow> state" where
  "recorder_stop s =
     (case audioRecorder s of
        None \<Rightarrow> s
      | Some r \<Rightarrow> s\<lparr>liveRecorders := liveRecorders s - {r}\<rparr>)"

definition handleMicToggle :: "mic_env \<Rightarrow> state \<Rightarrow> state" where
  "handleMicToggle env s =
     (if \<not> isRecording s then
        (case ensureAudioInitialized (micInit env) s of
           (Some m, s1) \<Rightarrow> mic_catch m s1
         | (None, s1) \<Rightarrow>
             (let r = nextId s1;
                  s2 = s1\<lparr>audioRecorder := Some r, nextId := Suc r\<rparr>
              in (case recorderStartRejects env of
                    Some m \<Rightarrow> mic_catch m s2
                  | None \<Rightarrow>
                      (let s3 = s2\<lparr>liveRecorders := insert r (liveRecorders s2)\<rparr>
                       in (case getUserMediaRejects env of
                             Some m \<Rightarrow> mic_catch m s3
                           | None \<Rightarrow>
                               (case streamerResumeRejects env of
                                  Some m \<Rightarrow> mic_catch m s3
                                | None \<Rightarrow> do_all
                                    [(\<lambda>s. s\<lparr>isRecording := True\<rparr>),
                                     emit (LoggerInfo (js ''Microphone started'')),
                                     logMessage (js ''Microphone started'') (js ''system''),
                                     updateMicIcon] s3))))))
      else do_all
        [(\<lambda>s. if audioRecorder s \<noteq> None \<and> isRecording s then recorder_stop s else s),
         (\<lambda>s. s\<lparr>isRecording := False\<rparr>),
         logMessage (js ''Microphone stopped'') (js ''system''),
         updateMicIcon,
         updateAudioVisualizer 0 True] s)"

text \<open>The callback given to \<open>audioRecorder.start\<close> (lines 221 to 238), for one chunk
  \<open>base64Data\<close>; \<open>inputDataArray\<close> is what the analyser writes into the byte array, which
  has 128 entries (half of \<open>fftSize\<close>), so that \<open>Math.max\<close> is the greatest of them.\<close>

definition audio_chunk_callback :: "jstring \<Rightarrow> 8 word list \<Rightarrow> state \<Rightarrow> state" where
  "audio_chunk_callback base64Data inputDataArray s = do_all
     [(\<lambda>s. if isUsingTool s
            then emit (ClientSendRealtimeInput
                   [\<lparr>mimeType = (js ''audio/pcm;rate=16000''), data = base64Data,
                     interrupt = Some True\<rparr>]) s
            else emit (ClientSendRealtimeInput
                   [\<lparr>mimeType = (js ''audio/pcm;rate=16000''), data = base64Data,
                     interrupt = None\<rparr>]) s),
      updateAudioVisualizer (of_nat (fold max (map unat inputDataArray) 0) / 255) True] s"

section \<open>Connecting (lines 280 to 338)\<close>

text \<open>How the promise of an \<open>async\<close> function settles.\<close>

datatype settled = Resolved | Rejected jstring

text \<open>\<open>connectRejects\<close> is the message of the error \<open>client.connect\<close> rejects with, if it
  does; an error without a message has the empty one.\<close>

definition connectToWebsocket :: "jstring option \<Rightarrow> state \<Rightarrow> settled \<times> state" where
  "connectToWebsocket connectRejects s =
     (if apiKeyInput s = [] then (Resolved, logMessage (js ''Please input API Key'') (js ''system'') s)
      else
        (let s1 = do_all
               [setItem (js ''gemini_api_key'') (apiKeyInput s),
                setItem (js ''gemini_voice'') (voiceSelect s),
                setItem (js ''gemini_language'') (languageSelect s),
                setItem (js ''system_instruction'') (systemInstructionInput s)] s;
             cfg = \<lparr>model = modelName s, responseModalities = responseTypeSelect s,
                    languageCode = languageSelect s, voiceName = voiceSelect s,
                    systemInstruction = systemInstructionInput s\<rparr>;
             s2 = emit (ClientConnect cfg (apiKeyInput s)) s1
         in (case connectRejects of
               None \<Rightarrow> (Resolved, do_all
                 [(\<lambda>s. s\<lparr>isConnected := True\<rparr>),
                  resumeAudioContext,
                  emit (DomSet (js ''connectButton'') (js ''textContent'') (js ''Disconnect'')),
                  emit (ClassAdd (js ''connectButton'') (js ''connected'')),
                  emit (DomSet (js ''messageInput'') (js ''disabled'') (js ''false'')),
                  emit (DomSet (js ''sendButton'') (js ''disabled'') (js ''false'')),
                  emit (DomSet (js ''micButton'') (js ''disabled'') (js ''false'')),
                  emit (DomSet (js ''cameraButton'') (js ''disabled'') (js ''false'')),
                  emit (DomSet (js ''screenButton'') (js ''disabled'') (js ''false'')),
                  logMessage (js ''Connected to Gemini Multimodal Live API'') (js ''system'')] s2)
             | Some m \<Rightarrow> (Resolved, do_all
                 [emit (LoggerError (js ''Connection error:'')),
                  logMessage (js ''Connection error: '' @ (if m = [] then (js ''Unknown error'') else m))
                    (js ''system''),
                  (\<lambda>s. s\<lparr>isConnected := False\<rparr>),
                  emit (DomSet (js ''connectButton'') (js ''textContent'') (js ''Connect'')),
                  emit (ClassRemove (js ''connectButton'') (js ''connected'')),
                  emit (DomSet (js ''messageInput'') (js ''disabled'') (js ''true'')),
                  emit (DomSet (js ''sendButton'') (js ''disabled'') (js ''true'')),
                  emit (DomSet (js ''micButton'') (js ''disabled'') (js ''true'')),
                  emit (DomSet (js ''cameraButton'') (js ''disabled'') (js ''true'')),
                  emit (DomSet (js ''screenButton'') (js ''disabled'') (js ''true''))] s2))))"

section \<open>Camera and screen sharing (lines 483 to 594)\<close>

definition stopVideo :: "state \<Rightarrow> state" where
  "stopVideo s = do_all
     [(\<lambda>s. case videoManager s of
              None \<Rightarrow> s
            | Some v \<Rightarrow> s\<lparr>liveVideo := liveVideo s - {v}, videoManager := None\<rparr>),
      (\<lambda>s. s\<lparr>isVideoActive := False\<rparr>),
      emit (DomSet (js ''cameraIcon'') (js ''textContent'') (js ''videocam'')),
      emit (ClassRemove (js ''cameraButton'') (js ''active'')),
      logMessage (js ''Camera stopped'') (js ''system'')] s"

text \<open>\<open>startRejects\<close> is the message of the error \<open>videoManager.start\<close> rejects with, if it
  does. The object printed after the first logger message is left out.\<close>

definition handleVideoToggle :: "jstring option \<Rightarrow> state \<Rightarrow> state" where
  "handleVideoToggle startRejects s =
     (let s0 = do_all
            [emit (LoggerInfo (js ''Video toggle clicked, current state:'')),
             setItem (js ''video_fps'') (fpsInput s)] s
      in if \<not> isVideoActive s0 then
           (let s1 = emit (LoggerInfo (js ''Attempting to start video'')) s0;
                s2 = (if videoManager s1 = None
                      then s1\<lparr>videoManager := Some (nextId s1), nextId := Suc (nextId s1)\<rparr>
                      else s1)
            in (case startRejects of
                  None \<Rightarrow> do_all
                    [(\<lambda>s. case videoManager s of
                             None \<Rightarrow> s
                           | Some v \<Rightarrow> s\<lparr>liveVideo := insert v (liveVideo s)\<rparr>),
                     (\<lambda>s. s\<lparr>isVideoActive := True\<rparr>),
                     emit (DomSet (js ''cameraIcon'') (js ''textContent'') (js ''videocam_off'')),
                     emit (ClassAdd (js ''cameraButton'') (js ''active'')),
                     emit (LoggerInfo (js ''Camera started successfully'')),
                     logMessage (js ''Camera started'') (js ''system'')] s2
                | Some m \<Rightarrow> do_all
                    [emit (LoggerError (js ''Camera error:'')),
                     logMessage (js ''Error: '' @ m) (js ''system''),
                     (\<lambda>s. s\<lparr>isVideoActive := False\<rparr>),
                     (\<lambda>s. s\<lparr>videoManager := None\<rparr>),
                     emit (DomSet (js ''cameraIcon'') (js ''textContent'') (js ''videocam'')),
                     emit (ClassRemove (js ''cameraButton'') (js ''active''))] s2))
         else do_all [emit (LoggerInfo (js ''Stopping video'')), stopVideo] s0)"

text \<open>The callback given to \<open>videoManager.start\<close> (lines 495 to 499).\<close>

definition video_frame_callback :: "chunk \<Rightarrow> state \<Rightarrow> state" where
  "video_frame_callback frameData s =
     (if isConnected s then emit (ClientSendRealtimeInput [frameData]) s else s)"

definition stopScreenSharing :: "state \<Rightarrow> state" where
  "stopScreenSharing s = do_all
     [(\<lambda>s. case screenRecorder s of
              None \<Rightarrow> s
            | Some r \<Rightarrow> s\<lparr>liveScreen := liveScreen s - {r}, screenRecorder := None\<rparr>),
      (\<lambda>s. s\<lparr>isScreenSharing := False\<rparr>),
      emit (DomSet (js ''screenIcon'') (js ''textContent'') (js ''screen_share'')),
      emit (ClassRemove (js ''screenButton'') (js ''active'')),
      emit (DomSet (js ''screenContainer'') (js ''style.display'') (js ''none'')),
      logMessage (js ''Screen sharing stopped'') (js ''system'')] s"

definition handleScreenShare :: "jstring option \<Rightarrow> state \<Rightarrow> state" where
  "handleScreenShare startRejects s =
     (if \<not> isScreenSharing s then
        (let s1 = emit (DomSet (js ''screenContainer'') (js ''style.display'') (js ''block'')) s;
             r = nextId s1;
             s2 = s1\<lparr>screenRecorder := Some r, nextId := Suc r\<rparr>
         in (case startRejects of
               None \<Rightarrow> do_all
                 [(\<lambda>s. s\<lparr>liveScreen := insert r (liveScreen s)\<rparr>),
                  (\<lambda>s. s\<lparr>isScreenSharing := True\<rparr>),
                  emit (DomSet (js ''screenIcon'') (js ''textContent'') (js ''stop_screen_share'')),
                  emit (ClassAdd (js ''screenButton'') (js ''active'')),
                  emit (LoggerInfo (js ''Screen sharing started'')),
                  logMessage (js ''Screen sharing started'') (js ''system'')] s2
             | Some m \<Rightarrow> do_all
                 [emit (LoggerError (js ''Screen sharing error:'')),
                  logMessage (js ''Error: '' @ m) (js ''system''),
                  (\<lambda>s. s\<lparr>isScreenSharing := False\<rparr>),
                  emit (DomSet (js ''screenIcon'') (js ''textContent'') (js ''screen_share'')),
                  emit (ClassRemove (js ''screenButton'') (js ''active'')),
                  emit (DomSet (js ''screenContainer'') (js ''style.display'') (js ''none''))] s2))
      else stopScreenSharing s)"

text \<open>
  \<open>handleScreenShare\<close> in its two parts. The first runs up to the \<open>await\<close> of line 550 and
  gives the recorder whose \<open>start\<close> is pending, or none when the click was a stop. The
  second is what runs once the \<open>start\<close> of that recorder has settled. Between the two the
  sharing flag is still clear and anything else can happen to the page.
\<close>

definition handleScreenShare_begin :: "state \<Rightarrow> nat option \<times> state" where
  "handleScreenShare_begin s =
     (if \<not> isScreenSharing s then
        (let s1 = emit (DomSet (js ''screenContainer'') (js ''style.display'') (js ''block'')) s;
             r = nextId s1;
             s2 = s1\<lparr>screenRecorder := Some r, nextId := Suc r\<rparr>
         in (Some r, s2))
      else (None, stopScreenSharing s))"

definition handleScreenShare_resume :: "nat \<Rightarrow> jstring option \<Rightarrow> state \<Rightarrow> state" where
  "handleScreenShare_resume r startRejects s =
     (case startRejects of
        None \<Rightarrow> do_all
          [(\<lambda>s. s\<lparr>liveScreen := insert r (liveScreen s)\<rparr>),
           (\<lambda>s. s\<lparr>isScreenSharing := True\<rparr>),
           emit (DomSet (js ''screenIcon'') (js ''textContent'') (js ''stop_screen_share'')),
           emit (ClassAdd (js ''screenButton'') (js ''active'')),
           emit (LoggerInfo (js ''Screen sharing started'')),
           logMessage (js ''Screen sharing started'') (js ''system'')] s
      | Some m \<Rightarrow> do_all
          [emit (LoggerError (js ''Screen sharing error:'')),
           logMessage (js ''Error: '' @ m) (js ''system''),
           (\<lambda>s. s\<lparr>isScreenSharing := False\<rparr>),
           emit (DomSet (js ''screenIcon'') (js ''textContent'') (js ''screen_share'')),
           emit (ClassRemove (js ''screenButton'') (js ''active'')),
           emit (DomSet (js ''screenContainer'') (js ''style.display'') (js ''none''))] s)"

text \<open>The callback given to \<open>screenRecorder.start\<close> (lines 550 to 557).\<close>

definition screen_frame_callback :: "jstring \<Rightarrow> state \<Rightarrow> state" where
  "screen_frame_callback frameData s =
     (if isConnected s
      then emit (ClientSendRealtimeInput
             [\<lparr>mimeType = (js ''image/jpeg''), data = frameData, interrupt = None\<rparr>]) s
      else s)"

section \<open>Disconnecting (lines 343 to 371)\<close>

definition disconnectFromWebsocket :: "state \<Rightarrow> state" where
  "disconnectFromWebsocket s = do_all
     [emit ClientDisconnect,
      (\<lambda>s. s\<lparr>isConnected := False\<rparr>),
      (\<lambda>s. case audioStreamer s of
              None \<Rightarrow> s
            | Some st \<Rightarrow> do_all
                [(\<lambda>s. s\<lparr>audioStreamer := Some (streamer_stop st)\<rparr>),
                 (\<lambda>s. if audioRecorder s \<noteq> None
                       then (recorder_stop s)\<lparr>audioRecorder := None\<rparr> else s),
                 (\<lambda>s. s\<lparr>isRecording := False\<rparr>),
                 updateMicIcon] s),
      emit (DomSet (js ''connectButton'') (js ''textContent'') (js ''Connect'')),
      emit (ClassRemove (js ''connectButton'') (js ''connected'')),
      emit (DomSet (js ''messageInput'') (js ''disabled'') (js ''true'')),
      emit (DomSet (js ''sendButton'') (js ''disabled'') (js ''true'')),
      emit (DomSet (js ''micButton'') (js ''disabled'') (js ''true'')),
      emit (DomSet (js ''cameraButton'') (js ''disabled'') (js ''true'')),
      emit (DomSet (js ''screenButton'') (js ''disabled'') (js ''true'')),
      logMessage (js ''Disconnected from server'') (js ''system''),
      (\<lambda>s. if videoManager s \<noteq> None then stopVideo s else s),
      (\<lambda>s. if screenRecorder s \<noteq> None then stopScreenSharing s else s)] s"

section \<open>Sending text (lines 376 to 383)\<close>

text \<open>The code units \<open>String.prototype.trim\<close> strips, by the ECMAScript definition of
  white space and line terminators: tab, line feed, vertical tab, form feed, carriage
  return, space, the no-break space, U+1680, U+2000 to U+200A, the line and paragraph
  separators U+2028 and U+2029, U+202F, U+205F, U+3000 and the byte order mark U+FEFF.\<close>

definition js_whitespace :: "16 word \<Rightarrow> bool" where
  "js_whitespace c \<longleftrightarrow>
     c \<in> set [0x0009, 0x000A, 0x000B, 0x000C, 0x000D, 0x0020, 0x00A0, 0x1680, 0x2028, 0x2029,
               0x202F, 0x205F, 0x3000, 0xFEFF]
     \<or> (0x2000 \<le> c \<and> c \<le> 0x200A)"

definition trim :: "jstring \<Rightarrow> jstring" where
  "trim v = rev (dropWhile js_whitespace (rev (dropWhile js_whitespace v)))"

definition handleSendMessage :: "state \<Rightarrow> state" where
  "handleSendMessage s =
     (let message = trim (messageInput s)
      in if message \<noteq> [] then do_all
           [logMessage message (js ''user''),
            emit (ClientSend message),
            (\<lambda>s. s\<lparr>messageInput := []\<rparr>)] s
         else s)"

section \<open>The handlers of the client's events (lines 386 to 455)\<close>

text \<open>
  An event of the transport client, with what main.js reads of its argument: the type and
  the JSON text of a \<open>log\<close> entry, the code of a \<open>close\<close>, the bytes of an \<open>audio\<close> frame
  (and what the browser answers while the handler sets the audio up), the data of a
  \<open>content\<close>, the message of an \<open>error\<close>, and the \<open>error\<close> field of a \<open>message\<close>.
\<close>

datatype event =
    EvOpen
  | EvLog jstring jstring
  | EvClose nat
  | EvAudio "8 word list" init_env
  | EvContent content
  | EvInterrupted
  | EvSetupComplete
  | EvTurnComplete
  | EvError jstring
  | EvMessage "jstring option"

text \<open>The decimal text of a number, as a template literal prints \<open>event.code\<close>.\<close>

fun string_of_nat :: "nat \<Rightarrow> string" where
  "string_of_nat n =
     (if n < 10 then [char_of (48 + n)]
      else string_of_nat (n div 10) @ [char_of (48 + n mod 10)])"

declare string_of_nat.simps [simp del]

definition on_audio :: "8 word list \<Rightarrow> init_env \<Rightarrow> state \<Rightarrow> state" where
  "on_audio pcm env s =
     (case ensureAudioInitialized env (resumeAudioContext s) of
        (Some m, s1) \<Rightarrow> logMessage (js ''Error processing audio: '' @ m) (js ''system'') s1
      | (None, s1) \<Rightarrow>
          (case audioStreamer s1 of
             None \<Rightarrow> s1
           | Some st \<Rightarrow> s1\<lparr>audioStreamer := Some (addPCM16 pcm st)\<rparr>))"

text \<open>\<open>parts.map(part => part.text).join('')\<close>: an absent text joins as the empty string.\<close>

definition joined_text :: "part list \<Rightarrow> jstring" where
  "joined_text parts = concat (map (\<lambda>p. case partText p of None \<Rightarrow> [] | Some t \<Rightarrow> t) parts)"

definition on_content :: "content \<Rightarrow> state \<Rightarrow> state" where
  "on_content d s =
     (case modelTurn d of
        None \<Rightarrow> s
      | Some parts \<Rightarrow>
          (let s1 = (if list_ex (\<lambda>p. functionCall p \<noteq> None) parts then do_all
                       [(\<lambda>s. s\<lparr>isUsingTool := True\<rparr>),
                        emit (LoggerInfo (js ''Model is using a tool''))] s
                     else if list_ex (\<lambda>p. functionResponse p \<noteq> None) parts then do_all
                       [(\<lambda>s. s\<lparr>isUsingTool := False\<rparr>),
                        emit (LoggerInfo (js ''Tool usage completed''))] s
                     else s);
               text = joined_text parts
           in if text \<noteq> [] then logMessage text (js ''ai'') s1 else s1))"

definition on_interrupted :: "state \<Rightarrow> state" where
  "on_interrupted s = do_all
     [(\<lambda>s. case audioStreamer s of
              None \<Rightarrow> s
            | Some st \<Rightarrow> s\<lparr>audioStreamer := Some (streamer_stop st)\<rparr>),
      (\<lambda>s. s\<lparr>isUsingTool := False\<rparr>),
      emit (LoggerInfo (js ''Model interrupted'')),
      logMessage (js ''Model interrupted'') (js ''system'')] s"

definition on_turncomplete :: "state \<Rightarrow> state" where
  "on_turncomplete s = do_all
     [(\<lambda>s. s\<lparr>isUsingTool := False\<rparr>),
      logMessage (js ''Turn complete'') (js ''system'')] s"

text \<open>
  The handler of \<open>error\<close> (lines 441 to 448) begins with the test
  \<open>error instanceof ApplicationError\<close>. main.js neither imports nor declares
  \<open>ApplicationError\<close>, so reading the name throws a \<open>ReferenceError\<close> before anything is
  logged, and the rest of the body is never reached.
\<close>

datatype js_error = ReferenceError jstring

definition on_error :: "jstring \<Rightarrow> state \<Rightarrow> js_error + state" where
  "on_error m s = Inl (ReferenceError (js ''ApplicationError is not defined''))"

definition on_message :: "jstring option \<Rightarrow> state \<Rightarrow> state" where
  "on_message err s =
     (case err of
        None \<Rightarrow> s
      | Some m \<Rightarrow>
          (if m \<noteq> [] then do_all
             [emit (LoggerError (js ''Server error:'')),
              logMessage (js ''Server error: '' @ m) (js ''system'')] s
           else s))"

text \<open>The handler registered with \<open>client.on\<close> for each event. When a handler throws, the
  module state stays as the handler left it.\<close>

fun handle_event :: "event \<Rightarrow> state \<Rightarrow> state" where
  "handle_event EvOpen s = logMessage (js ''WebSocket connection opened'') (js ''system'') s"
| "handle_event (EvLog t m) s = logMessage (t @ (js '': '') @ m) (js ''system'') s"
| "handle_event (EvClose code) s =
     logMessage (js ''WebSocket connection closed (code '' @ js (string_of_nat code) @ js '')'')
       (js ''system'') s"
| "handle_event (EvAudio pcm env) s = on_audio pcm env s"
| "handle_event (EvContent d) s = on_content d s"
| "handle_event EvInterrupted s = on_interrupted s"
| "handle_event EvSetupComplete s = logMessage (js ''Setup complete'') (js ''system'') s"
| "handle_event EvTurnComplete s = on_turncomplete s"
| "handle_event (EvError m) s = (case on_error m s of Inl e \<Rightarrow> s | Inr t \<Rightarrow> t)"
| "handle_event (EvMessage err) s = on_message err s"





text \<open>The entries \<open>logMessage\<close> has appended to the log container, oldest first.\<close>

definition notifications :: "state \<Rightarrow> (jstring \<times> jstring) list" where
  "notifications s =
     concat (map (\<lambda>e. case e of LogMessage m t \<Rightarrow> [(m, t)] | _ \<Rightarrow> []) (effects s))"

text \<open>The arrays handed to \<open>client.sendRealtimeInput\<close>, oldest first, and the number of
  calls of \<open>client.connect\<close>.\<close>

definition realtime_inputs :: "state \<Rightarrow> chunk list list" where
  "realtime_inputs s =
     concat (map (\<lambda>e. case e of ClientSendRealtimeInput cs \<Rightarrow> [cs] | _ \<Rightarrow> []) (effects s))"

definition connect_attempts :: "state \<Rightarrow> nat" where
  "connect_attempts s =
     length (filter (\<lambda>e. case e of ClientConnect c k \<Rightarrow> True | _ \<Rightarrow> False) (effects s))"

definition sent_texts :: "state \<Rightarrow> jstring list" where
  "sent_texts s =
     concat (map (\<lambda>e. case e of ClientSend m \<Rightarrow> [m] | _ \<Rightarrow> []) (effects s))"

section \<open>The page as a transition system\<close>

text \<open>
  What can happen to the page: an event of the client, a click on a button, a chunk from a
  live producer, the volume meter of the playback worklet, and the user editing an input
  control. Each asynchronous handler runs to its end before the next thing happens; what
  the browser answers at its \<open>await\<close>s is part of the action. Every run of these actions is a
  run of the page; the runs in which something happens while a handler waits at an
  \<open>await\<close> are not among them. A call of the transport client or of the logger does not
  throw. The panel toggles of lines 98 to 106 and the decoration
  of lines 596 to 739 touch none of the state above and are left out.
\<close>

datatype control =
    MessageInput | ApiKeyInput | VoiceSelect | LanguageSelect | FpsInput
  | SystemInstructionInput | ResponseTypeSelect

datatype action =
    Inbound event
  | ClickConnect "jstring option"
  | SendMessage
  | ClickMic mic_env
  | ClickCamera "jstring option"
  | ClickStopVideo
  | ClickScreen "jstring option"
  | AudioChunk nat jstring "8 word list"
  | VideoFrame nat chunk
  | ScreenFrame nat jstring
  | VolumeOut rat
  | Edit control jstring

fun edit :: "control \<Rightarrow> jstring \<Rightarrow> state \<Rightarrow> state" where
  "edit MessageInput v s = s\<lparr>messageInput := v\<rparr>"
| "edit ApiKeyInput v s = s\<lparr>apiKeyInput := v\<rparr>"
| "edit VoiceSelect v s = s\<lparr>voiceSelect := v\<rparr>"
| "edit LanguageSelect v s = s\<lparr>languageSelect := v\<rparr>"
| "edit FpsInput v s = s\<lparr>fpsInput := v\<rparr>"
| "edit SystemInstructionInput v s = s\<lparr>systemInstructionInput := v\<rparr>"
| "edit ResponseTypeSelect v s = s\<lparr>responseTypeSelect := v\<rparr>"

text \<open>A producer calls back only while it is live; everything else can happen at any
  time (the disabling of the buttons is not relied upon).\<close>

fun enabled :: "action \<Rightarrow> state \<Rightarrow> bool" where
  "enabled (AudioChunk r d a) s = (r \<in> liveRecorders s)"
| "enabled (VideoFrame v f) s = (v \<in> liveVideo s)"
| "enabled (ScreenFrame r d) s = (r \<in> liveScreen s)"
| "enabled _ s = True"

text \<open>The click handler of the connect button is lines 466 to 472.\<close>

fun step :: "action \<Rightarrow> state \<Rightarrow> state" where
  "step (Inbound e) s = handle_event e s"
| "step (ClickConnect connectRejects) s =
     (if isConnected s then disconnectFromWebsocket s
      else snd (connectToWebsocket connectRejects s))"
| "step SendMessage s = handleSendMessage s"
| "step (ClickMic env) s = handleMicToggle env s"
| "step (ClickCamera startRejects) s = handleVideoToggle startRejects s"
| "step ClickStopVideo s = stopVideo s"
| "step (ClickScreen startRejects) s = handleScreenShare startRejects s"
| "step (AudioChunk r d a) s = audio_chunk_callback d a s"
| "step (VideoFrame v f) s = video_frame_callback f s"
| "step (ScreenFrame r d) s = screen_frame_callback d s"
| "step (VolumeOut v) s = updateAudioVisualizer v False s"
| "step (Edit c v) s = edit c v s"

text \<open>A state the page starts in: the module variables as declared, no producer live; the
  input controls, the storage and what the page load has done are arbitrary.\<close>

definition initial :: "state \<Rightarrow> bool" where
  "initial s \<longleftrightarrow>
     \<not> isRecording s \<and> audioStreamer s = None \<and> audioCtx s = None \<and> \<not> isConnected s
     \<and> audioRecorder s = None \<and> \<not> isVideoActive s \<and> videoManager s = None
     \<and> \<not> isScreenSharing s \<and> screenRecorder s = None \<and> \<not> isUsingTool s
     \<and> liveRecorders s = {} \<and> liveVideo s = {} \<and> liveScreen s = {}"

inductive reachable :: "state \<Rightarrow> bool" where
  reachable_initial: "initial s \<Longrightarrow> reachable s"
| reachable_step: "reachable s \<Longrightarrow> enabled a s \<Longrightarrow> reachable (step a s)"

text \<open>A sequence of actions, run from a state; an action that is not enabled when its turn
  comes does not happen.\<close>

fun run :: "action list \<Rightarrow> state \<Rightarrow> state" where
  "run [] s = s"
| "run (a # as) s = run as (if enabled a s then step a s else s)"

section \<open>Notions the properties are stated with\<close>


text \<open>A halted Playback Sink plays nothing and has nothing queued.\<close>

definition halted :: "streamer \<Rightarrow> bool" where
  "halted st \<longleftrightarrow> playQueue st = [] \<and> \<not> playing st"

text \<open>The text fields that are present, in array order.\<close>

definition present_texts :: "part list \<Rightarrow> jstring list" where
  "present_texts parts = map (\<lambda>p. the (partText p)) (filter (\<lambda>p. partText p \<noteq> None) parts)"

text \<open>
  What every reachable state satisfies. A recorder object or a set recording flag comes
  with a Playback Sink; a live camera or screen producer is the one its module variable
  holds; no camera or screen producer is live while its flag is clear; a set camera or
  sharing flag comes with an object in the variable.
\<close>

definition sink_inv :: "state \<Rightarrow> bool" where
  "sink_inv s \<longleftrightarrow> (audioRecorder s \<noteq> None \<or> isRecording s \<longrightarrow> audioStreamer s \<noteq> None)"

definition video_inv :: "state \<Rightarrow> bool" where
  "video_inv s \<longleftrightarrow>
     liveVideo s \<subseteq> set_option (videoManager s)
     \<and> (\<not> isVideoActive s \<longrightarrow> liveVideo s = {})
     \<and> (isVideoActive s \<longrightarrow> videoManager s \<noteq> None)"

definition screen_inv :: "state \<Rightarrow> bool" where
  "screen_inv s \<longleftrightarrow>
     liveScreen s \<subseteq> set_option (screenRecorder s)
     \<and> (\<not> isScreenSharing s \<longrightarrow> liveScreen s = {})
     \<and> (isScreenSharing s \<longrightarrow> screenRecorder s \<noteq> None)"

text \<open>
  A session in which a microphone start fails after the recorder has started: the user
  enters a key and connects, toggles the microphone while \<open>getUserMedia\<close> rejects (recorder
  0 has started and stays in the variable, the recording flag is clear), toggles it again
  with success (recorder 1 replaces recorder 0 in the variable) and disconnects.
\<close>

definition browser_ok :: init_env where
  "browser_ok = \<lparr>newAudioContextThrows = None, newContextSuspended = False,
     addWorkletRejects = None\<rparr>"

definition mic_ok :: mic_env where
  "mic_ok = \<lparr>micInit = browser_ok, recorderStartRejects = None, getUserMediaRejects = None,
     streamerResumeRejects = None\<rparr>"

definition mic_denied_late :: mic_env where
  "mic_denied_late = \<lparr>micInit = browser_ok, recorderStartRejects = None,
     getUserMediaRejects = Some (js ''NotAllowedError''), streamerResumeRejects = None\<rparr>"

definition leaked_recorder_session :: "action list" where
  "leaked_recorder_session =
     [Edit ApiKeyInput (js ''key''), ClickConnect None, ClickMic mic_denied_late, ClickMic mic_ok,
      ClickConnect None]"

text \<open>The same session before the user disconnects: the page is connected, recorder 0 and
  recorder 1 are live, and the variable holds recorder 1.\<close>

definition two_recorders_session :: "action list" where
  "two_recorders_session =
     [Edit ApiKeyInput (js ''key''), ClickConnect None, ClickMic mic_denied_late,
      ClickMic mic_ok]"

text \<open>
  Two clicks on the screen button of a connected page, the second while the \<open>start\<close> of the
  first is pending; then both starts resolve, that of recorder 0 first.
\<close>

definition overlapped_screen_starts :: state where
  "overlapped_screen_starts =
     (let s0 = run [Edit ApiKeyInput (js ''key''), ClickConnect None] init_state;
          s1 = snd (handleScreenShare_begin s0);
          s2 = snd (handleScreenShare_begin s1)
      in handleScreenShare_resume 1 None (handleScreenShare_resume 0 None s2))"

text \<open>A session with everything on: the user enters a key, connects, and starts the
  microphone, the camera and the screen sharing, all with success.\<close>

definition busy_session :: "action list" where
  "busy_session =
     [Edit ApiKeyInput (js ''key''), ClickConnect None, ClickMic mic_ok, ClickCamera None,
      ClickScreen None]"

section \<open>Properties\<close>

subsection \<open>String literals\<close>

text \<open>Distinct literals of main.js are distinct strings.\<close>

lemma unat_js_unit: "unat (of_nat (of_char c) :: 16 word) = of_char c"
proof -
  have "(of_char c :: nat) mod 256 < 256" by (rule mod_less_divisor) simp
  then have "(of_char c :: nat) < 256" by simp
  moreover have "(2::nat) ^ LENGTH(16) = 65536" by simp
  ultimately have "(of_char c :: nat) < 2 ^ LENGTH(16)" by linarith
  then show ?thesis by (simp add: unat_of_nat)
qed

lemma js_unit_inj:
  "(of_nat (of_char c) :: 16 word) = of_nat (of_char d) \<longleftrightarrow> c = d"
proof
  assume "(of_nat (of_char c) :: 16 word) = of_nat (of_char d)"
  then have "unat (of_nat (of_char c) :: 16 word) = unat (of_nat (of_char d) :: 16 word)" by simp
  then have "(of_char c :: nat) = of_char d" by (simp only: unat_js_unit)
  then show "c = d" by simp
qed simp

lemma js_Nil [simp]: "js [] = []"
  by (simp add: js_def)

lemma js_Cons: "js (c # cs) = of_nat (of_char c) # js cs"
  by (simp add: js_def)

lemma js_eq_Nil [simp]: "js cs = [] \<longleftrightarrow> cs = []"
  by (simp add: js_def)

lemma Nil_eq_js [simp]: "[] = js cs \<longleftrightarrow> cs = []"
  by (cases cs) (simp_all add: js_def)

lemma js_eq_iff [simp]: "js a = js b \<longleftrightarrow> a = b"
proof (induction a arbitrary: b)
  case Nil
  show ?case by auto
next
  case (Cons c cs)
  show ?case by (cases b) (simp_all add: js_Cons js_unit_inj Cons.IH)
qed

subsection \<open>Sequencing and effects\<close>

lemma do_all_Nil [simp]: "do_all [] s = s"
  by (simp add: do_all_def)

lemma do_all_Cons [simp]: "do_all (f # fs) s = do_all fs (f s)"
  by (simp add: do_all_def)

lemma effects_emit [simp]: "effects (emit e s) = effects s @ [e]"
  by (simp add: emit_def)

lemma notifications_append:
  "effects t = effects s @ es \<Longrightarrow>
   notifications t = notifications s @ concat (map (\<lambda>e. case e of LogMessage m k \<Rightarrow> [(m, k)] | _ \<Rightarrow> []) es)"
  by (simp add: notifications_def)

lemma realtime_inputs_append:
  "effects t = effects s @ es \<Longrightarrow>
   realtime_inputs t = realtime_inputs s @ concat (map (\<lambda>e. case e of ClientSendRealtimeInput cs \<Rightarrow> [cs] | _ \<Rightarrow> []) es)"
  by (simp add: realtime_inputs_def)

lemma sent_texts_append:
  "effects t = effects s @ es \<Longrightarrow>
   sent_texts t = sent_texts s @ concat (map (\<lambda>e. case e of ClientSend m \<Rightarrow> [m] | _ \<Rightarrow> []) es)"
  by (simp add: sent_texts_def)

subsection \<open>The tool-use flag\<close>



lemma on_content_flag:
  "isUsingTool (on_content d s) =
     (case modelTurn d of
        None \<Rightarrow> isUsingTool s
      | Some parts \<Rightarrow>
          (if list_ex (\<lambda>p. functionCall p \<noteq> None) parts then True
           else if list_ex (\<lambda>p. functionResponse p \<noteq> None) parts then False
           else isUsingTool s))"
  by (simp add: on_content_def logMessage_def emit_def Let_def split: option.splits)







lemma initial_init_state: "initial init_state"
  by (simp add: initial_def init_state_def)

text \<open>
  Claim C1, as the code has it. On a \<open>content\<close> event that carries a model turn, the handler
  sets the tool-use flag if some part has a function call; otherwise (the test is an
  \<open>else if\<close>) it clears the flag if some part has a function response; otherwise it leaves
  the flag as it was. A function call takes precedence: an event with both kinds of part
  sets the flag and does not clear it.
\<close>

theorem C1_content_sets_tool_flag:
  "isUsingTool (on_content \<lparr>modelTurn = Some parts\<rparr> s) =
     (if list_ex (\<lambda>p. functionCall p \<noteq> None) parts then True
      else if list_ex (\<lambda>p. functionResponse p \<noteq> None) parts then False
      else isUsingTool s)"
  by (simp add: on_content_flag)

theorem C1_content_sets_tool_flag_witness:
  "isUsingTool (on_content \<lparr>modelTurn = Some
      [\<lparr>partText = None, functionCall = None, functionResponse = Some (js ''{}'')\<rparr>]\<rparr>
      (init_state\<lparr>isUsingTool := True\<rparr>)) = False"
  using C1_content_sets_tool_flag [of
      "[\<lparr>partText = None, functionCall = None, functionResponse = Some (js ''{}'')\<rparr>]"
      "init_state\<lparr>isUsingTool := True\<rparr>"]
  by simp

text \<open>The claim as written has the handler clear the flag whenever a part has a function
  response; with a function call in the same event the flag stays set.\<close>

theorem C1_both_parts_counterexample:
  "isUsingTool (on_content \<lparr>modelTurn = Some
      [\<lparr>partText = None, functionCall = Some (js ''{}''), functionResponse = None\<rparr>,
       \<lparr>partText = None, functionCall = None, functionResponse = Some (js ''{}'')\<rparr>]\<rparr>
      (init_state\<lparr>isUsingTool := True\<rparr>)) = True
   \<and> isUsingTool (on_content \<lparr>modelTurn = Some
      [\<lparr>partText = None, functionCall = None, functionResponse = Some (js ''{}'')\<rparr>,
       \<lparr>partText = None, functionCall = Some (js ''{}''), functionResponse = None\<rparr>]\<rparr>
      init_state) = True"
  by (simp add: on_content_flag)



subsection \<open>Outbound chunks and notifications\<close>

text \<open>
  Claim C3. The audio recorder's callback hands every chunk to \<open>client.sendRealtimeInput\<close>
  with the MIME type \<open>audio/pcm;rate=16000\<close>, with \<open>interrupt: true\<close> exactly when the tool-use
  flag is set at that moment and with no \<open>interrupt\<close> field otherwise; a screen frame that
  is sent carries the MIME type \<open>image/jpeg\<close>.
\<close>

theorem C3_audio_and_screen_chunks:
  "realtime_inputs (audio_chunk_callback base64Data inputDataArray s) =
     realtime_inputs s @
       [[\<lparr>mimeType = (js ''audio/pcm;rate=16000''), data = base64Data,
          interrupt = (if isUsingTool s then Some True else None)\<rparr>]]
   \<and> realtime_inputs (screen_frame_callback frameData s) =
     realtime_inputs s @
       (if isConnected s
        then [[\<lparr>mimeType = (js ''image/jpeg''), data = frameData, interrupt = None\<rparr>]] else [])"
proof
  have "effects (audio_chunk_callback base64Data inputDataArray s) = effects s @
      [ClientSendRealtimeInput [\<lparr>mimeType = (js ''audio/pcm;rate=16000''), data = base64Data,
          interrupt = (if isUsingTool s then Some True else None)\<rparr>],
       UpdateAudioVisualizer (of_nat (fold max (map unat inputDataArray) 0) / 255) True]"
    by (simp add: audio_chunk_callback_def updateAudioVisualizer_def)
  from realtime_inputs_append [OF this]
  show "realtime_inputs (audio_chunk_callback base64Data inputDataArray s) =
     realtime_inputs s @
       [[\<lparr>mimeType = (js ''audio/pcm;rate=16000''), data = base64Data,
          interrupt = (if isUsingTool s then Some True else None)\<rparr>]]"
    by simp
next
  have "effects (screen_frame_callback frameData s) = effects s @
      (if isConnected s
       then [ClientSendRealtimeInput [\<lparr>mimeType = (js ''image/jpeg''), data = frameData, interrupt = None\<rparr>]]
       else [])"
    by (simp add: screen_frame_callback_def)
  from realtime_inputs_append [OF this]
  show "realtime_inputs (screen_frame_callback frameData s) =
     realtime_inputs s @
       (if isConnected s
        then [[\<lparr>mimeType = (js ''image/jpeg''), data = frameData, interrupt = None\<rparr>]] else [])"
    by simp
qed

lemma joined_text_present: "joined_text parts = concat (present_texts parts)"
  by (induction parts) (auto simp: joined_text_def present_texts_def)

lemma on_content_effects:
  "effects (on_content \<lparr>modelTurn = Some parts\<rparr> s) = effects s @
     (if list_ex (\<lambda>p. functionCall p \<noteq> None) parts then [LoggerInfo (js ''Model is using a tool'')]
      else if list_ex (\<lambda>p. functionResponse p \<noteq> None) parts then [LoggerInfo (js ''Tool usage completed'')]
      else []) @
     (if joined_text parts = [] then [] else [LogMessage (joined_text parts) (js ''ai'')])"
  by (simp add: on_content_def logMessage_def Let_def)

text \<open>
  Claim C4. A \<open>content\<close> event whose model turn has a list of parts surfaces one \<open>ai\<close>
  notification, the concatenation of the parts' texts in array order (a part without text
  adds nothing), and none when that concatenation is empty; the parts with the texts
  \<open>A\<close> and \<open>B\<close> give \<open>AB\<close>.
\<close>

theorem C4_content_text_notification:
  "notifications (on_content \<lparr>modelTurn = Some parts\<rparr> s) =
     notifications s @
       (if joined_text parts = [] then [] else [(joined_text parts, js ''ai'')])
   \<and> joined_text parts = concat (present_texts parts)
   \<and> joined_text
       [\<lparr>partText = Some (js ''A''), functionCall = None, functionResponse = None\<rparr>,
        \<lparr>partText = Some (js ''B''), functionCall = None, functionResponse = None\<rparr>] = js ''AB''"
proof -
  have "notifications (on_content \<lparr>modelTurn = Some parts\<rparr> s) =
     notifications s @ (if joined_text parts = [] then [] else [(joined_text parts, js ''ai'')])"
    using notifications_append [OF on_content_effects [of parts s]] by simp
  moreover have "joined_text
       [\<lparr>partText = Some (js ''A''), functionCall = None, functionResponse = None\<rparr>,
        \<lparr>partText = Some (js ''B''), functionCall = None, functionResponse = None\<rparr>] = js ''AB''"
    by (simp add: joined_text_def js_def)
  ultimately show ?thesis by (simp add: joined_text_present)
qed

subsection \<open>Connecting with an empty key\<close>

text \<open>
  Claim C6, as the code has it. With an empty API key \<open>connectToWebsocket\<close> surfaces the
  notification \<open>Please input API Key\<close> and returns; its promise resolves. Nothing else
  changes: no connection attempt is made, \<open>isConnected\<close> keeps its value and nothing is
  stored.
\<close>

theorem C6_connect_with_empty_key:
  assumes "apiKeyInput s = []"
  shows "connectToWebsocket connectRejects s =
           (Resolved, s\<lparr>effects := effects s @ [LogMessage (js ''Please input API Key'') (js ''system'')]\<rparr>)
         \<and> connect_attempts (snd (connectToWebsocket connectRejects s)) = connect_attempts s
         \<and> isConnected (snd (connectToWebsocket connectRejects s)) = isConnected s
         \<and> localStorage (snd (connectToWebsocket connectRejects s)) = localStorage s"
  using assms by (simp add: connectToWebsocket_def logMessage_def emit_def connect_attempts_def)

theorem C6_connect_with_empty_key_witness:
  "apiKeyInput init_state = []
   \<and> connectToWebsocket None init_state =
       (Resolved, init_state\<lparr>effects := [LogMessage (js ''Please input API Key'') (js ''system'')]\<rparr>)
   \<and> \<not> isConnected (snd (connectToWebsocket None init_state))"
proof -
  have k: "apiKeyInput init_state = []" by (simp add: init_state_def)
  from C6_connect_with_empty_key [OF k, of None] k show ?thesis
    by (simp add: init_state_def)
qed

text \<open>The claim as written has the call rejected with a \<open>UserInputError\<close>; it resolves.\<close>

theorem C6_not_rejected_counterexample:
  "apiKeyInput init_state = []
   \<and> fst (connectToWebsocket None init_state) = Resolved
   \<and> fst (connectToWebsocket None init_state) \<noteq> Rejected (js ''UserInputError'')"
  by (simp add: connectToWebsocket_def init_state_def)

subsection \<open>Interruption\<close>

text \<open>
  Claim C7. On every \<open>interrupted\<close> event the Playback Sink, if there is one, is stopped
  (nothing queued, nothing playing) and the tool-use flag is clear afterwards, whatever it
  was before.
\<close>

theorem C7_interrupted_stops_sink_and_clears_flag:
  "\<not> isUsingTool (on_interrupted s)
   \<and> audioStreamer (on_interrupted s) = map_option streamer_stop (audioStreamer s)
   \<and> (case audioStreamer (on_interrupted s) of
         None \<Rightarrow> audioStreamer s = None
       | Some st \<Rightarrow> halted st)"
  by (cases "audioStreamer s")
     (simp_all add: on_interrupted_def logMessage_def emit_def streamer_stop_def halted_def)

subsection \<open>Sending text\<close>

lemma dropWhile_rev_empty_iff:
  "dropWhile P (rev (dropWhile P v)) = [] \<longleftrightarrow> list_all P v"
proof
  assume a: "dropWhile P (rev (dropWhile P v)) = []"
  show "list_all P v"
  proof (cases "dropWhile P v")
    case Nil
    then have "\<forall>x\<in>set v. P x" by (simp only: dropWhile_eq_Nil_conv)
    then show ?thesis by (simp only: list_all_iff)
  next
    case (Cons x xs)
    then have "\<not> P x" using hd_dropWhile [of P v] by simp
    moreover from a have "\<forall>y\<in>set (rev (dropWhile P v)). P y"
      by (simp only: dropWhile_eq_Nil_conv)
    then have "P x" using Cons by simp
    ultimately show ?thesis by simp
  qed
next
  assume "list_all P v"
  then have "dropWhile P v = []" by (simp only: dropWhile_eq_Nil_conv list_all_iff)
  then show "dropWhile P (rev (dropWhile P v)) = []"
    by (simp only: rev.simps(1) dropWhile.simps(1))
qed

lemma trim_empty_iff: "trim v = [] \<longleftrightarrow> list_all js_whitespace v"
proof -
  have "trim v = [] \<longleftrightarrow> dropWhile js_whitespace (rev (dropWhile js_whitespace v)) = []"
    by (simp only: trim_def rev_is_Nil_conv)
  then show ?thesis by (simp only: dropWhile_rev_empty_iff)
qed

lemma trim_surrounded:
  "\<exists>a b. v = a @ trim v @ b \<and> list_all js_whitespace a \<and> list_all js_whitespace b"
proof -
  let ?w = "dropWhile js_whitespace v"
  have 1: "v = takeWhile js_whitespace v @ ?w" by simp
  have 2: "rev ?w = takeWhile js_whitespace (rev ?w) @ dropWhile js_whitespace (rev ?w)" by simp
  then have "?w = trim v @ rev (takeWhile js_whitespace (rev ?w))"
    unfolding trim_def by (metis rev_append rev_rev_ident)
  with 1 have "v = takeWhile js_whitespace v @ trim v @ rev (takeWhile js_whitespace (rev ?w))"
    by simp
  moreover have "list_all js_whitespace (takeWhile js_whitespace v)"
    by (simp add: list_all_iff) (meson set_takeWhileD)
  moreover have "list_all js_whitespace (rev (takeWhile js_whitespace (rev ?w)))"
    by (simp add: list_all_iff) (meson set_takeWhileD)
  ultimately show ?thesis by blast
qed

lemma trim_ends:
  assumes "trim v \<noteq> []"
  shows "\<not> js_whitespace (hd (trim v)) \<and> \<not> js_whitespace (last (trim v))"
proof -
  let ?w = "dropWhile js_whitespace v"
  let ?u = "dropWhile js_whitespace (rev ?w)"
  from assms have u: "?u \<noteq> []" by (simp add: trim_def)
  then have hu: "\<not> js_whitespace (hd ?u)" by (rule hd_dropWhile)
  have "last (trim v) = hd ?u" using u by (simp add: trim_def last_rev)
  with hu have l: "\<not> js_whitespace (last (trim v))" by simp
  from u have w: "?w \<noteq> []" by (metis dropWhile.simps(1) rev.simps(1))
  then have hw: "\<not> js_whitespace (hd ?w)" by (rule hd_dropWhile)
  have "rev ?w = takeWhile js_whitespace (rev ?w) @ ?u" by simp
  then have "?w = rev ?u @ rev (takeWhile js_whitespace (rev ?w))"
    by (metis rev_append rev_rev_ident)
  then have "hd ?w = hd (rev ?u)" using u by (metis hd_append2 rev_is_Nil_conv)
  with hw have "\<not> js_whitespace (hd (trim v))" by (simp add: trim_def)
  with l show ?thesis by simp
qed

lemma trim_unique:
  assumes v: "v = a @ t @ b"
    and a: "list_all js_whitespace a" and b: "list_all js_whitespace b"
    and t: "t \<noteq> []" "\<not> js_whitespace (hd t)" "\<not> js_whitespace (last t)"
  shows "trim v = t"
proof -
  from a have "dropWhile js_whitespace v = dropWhile js_whitespace (t @ b)"
    unfolding v by (simp add: dropWhile_append list_all_iff)
  also have "\<dots> = t @ b" using t(1,2) by (cases t) simp_all
  finally have 1: "dropWhile js_whitespace v = t @ b" .
  from b have "dropWhile js_whitespace (rev b @ rev t) = dropWhile js_whitespace (rev t)"
    by (simp add: dropWhile_append list_all_iff)
  also have "\<dots> = rev t"
  proof (cases "rev t")
    case Nil
    with t(1) show ?thesis by simp
  next
    case (Cons x xs)
    then have "last t = x" by (metis last_snoc rev.simps(2) rev_rev_ident)
    with t(3) Cons show ?thesis by simp
  qed
  finally have "dropWhile js_whitespace (rev (t @ b)) = rev t" by simp
  with 1 show ?thesis by (simp add: trim_def)
qed

text \<open>
  Claim C10. \<open>handleSendMessage\<close> sends a text exactly when the input field, trimmed of
  surrounding white space, is not empty (that is, when the field is not all white space).
  When it sends, the text sent (and logged as \<open>user\<close>) is the trimmed string and the field
  is cleared; when it does not, the whole state is unchanged. The trimmed string is the
  field without a leading and a trailing run of white space, and it neither begins nor
  ends with white space: whenever the field is white space, then a text that does not
  begin or end with white space, then white space, that text is what is sent.
\<close>

theorem C10_send_message_iff_trimmed_nonempty:
  "(if trim (messageInput s) = [] then handleSendMessage s = s
    else handleSendMessage s =
      s\<lparr>effects := effects s @
           [LogMessage (trim (messageInput s)) (js ''user''), ClientSend (trim (messageInput s))],
        messageInput := []\<rparr>)
   \<and> sent_texts (handleSendMessage s) =
       sent_texts s @ (if trim (messageInput s) = [] then [] else [trim (messageInput s)])
   \<and> (sent_texts (handleSendMessage s) \<noteq> sent_texts s \<longleftrightarrow> trim (messageInput s) \<noteq> [])
   \<and> (trim (messageInput s) = [] \<longleftrightarrow> list_all js_whitespace (messageInput s))
   \<and> (\<exists>a b. messageInput s = a @ trim (messageInput s) @ b
          \<and> list_all js_whitespace a \<and> list_all js_whitespace b)
   \<and> (trim (messageInput s) \<noteq> [] \<longrightarrow>
          \<not> js_whitespace (hd (trim (messageInput s)))
          \<and> \<not> js_whitespace (last (trim (messageInput s))))
   \<and> (\<forall>a t b. messageInput s = a @ t @ b \<and> list_all js_whitespace a
          \<and> list_all js_whitespace b \<and> t \<noteq> [] \<and> \<not> js_whitespace (hd t)
          \<and> \<not> js_whitespace (last t) \<longrightarrow>
          sent_texts (handleSendMessage s) = sent_texts s @ [t]
          \<and> messageInput (handleSendMessage s) = [])"
proof -
  have e: "effects (handleSendMessage s) = effects s @
      (if trim (messageInput s) = [] then []
       else [LogMessage (trim (messageInput s)) (js ''user''), ClientSend (trim (messageInput s))])"
    by (simp add: handleSendMessage_def logMessage_def Let_def)
  have st: "sent_texts (handleSendMessage s) =
       sent_texts s @ (if trim (messageInput s) = [] then [] else [trim (messageInput s)])"
    using sent_texts_append [OF e] by simp
  have eq: "if trim (messageInput s) = [] then handleSendMessage s = s
    else handleSendMessage s =
      s\<lparr>effects := effects s @
           [LogMessage (trim (messageInput s)) (js ''user''), ClientSend (trim (messageInput s))],
        messageInput := []\<rparr>"
    by (simp add: handleSendMessage_def logMessage_def emit_def Let_def)
  have spec: "sent_texts (handleSendMessage s) = sent_texts s @ [t]
      \<and> messageInput (handleSendMessage s) = []"
    if "messageInput s = a @ t @ b \<and> list_all js_whitespace a \<and> list_all js_whitespace b
      \<and> t \<noteq> [] \<and> \<not> js_whitespace (hd t) \<and> \<not> js_whitespace (last t)" for a t b
  proof -
    from that have tr: "trim (messageInput s) = t" by (intro trim_unique [of _ a t b]) simp_all
    from that have "t \<noteq> []" by simp
    with tr st eq show ?thesis by simp
  qed
  have changed: "sent_texts (handleSendMessage s) \<noteq> sent_texts s \<longleftrightarrow> trim (messageInput s) \<noteq> []"
    using st by simp
  have ends: "trim (messageInput s) \<noteq> [] \<longrightarrow>
          \<not> js_whitespace (hd (trim (messageInput s)))
          \<and> \<not> js_whitespace (last (trim (messageInput s)))"
    using trim_ends [of "messageInput s"] by blast
  have all: "\<forall>a t b. messageInput s = a @ t @ b \<and> list_all js_whitespace a
          \<and> list_all js_whitespace b \<and> t \<noteq> [] \<and> \<not> js_whitespace (hd t)
          \<and> \<not> js_whitespace (last t) \<longrightarrow>
          sent_texts (handleSendMessage s) = sent_texts s @ [t]
          \<and> messageInput (handleSendMessage s) = []"
    using spec by blast
  show ?thesis
    by (intro conjI)
       (rule eq, rule st, rule changed, rule trim_empty_iff, rule trim_surrounded, rule ends,
        rule all)
qed

theorem C10_send_message_iff_trimmed_nonempty_witness:
  "sent_texts (handleSendMessage
      (init_state\<lparr>messageInput := [0x3000, 0x20] @ js ''hi there'' @ [0xFEFF, 0x0A]\<rparr>)) =
     [js ''hi there'']
   \<and> messageInput (handleSendMessage
      (init_state\<lparr>messageInput := [0x3000, 0x20] @ js ''hi there'' @ [0xFEFF, 0x0A]\<rparr>)) = []
   \<and> sent_texts (handleSendMessage (init_state\<lparr>messageInput := js '' x ''\<rparr>)) = [js ''x'']
   \<and> handleSendMessage (init_state\<lparr>messageInput := [0x20, 0x2003, 0x3000]\<rparr>) =
       init_state\<lparr>messageInput := [0x20, 0x2003, 0x3000]\<rparr>"
proof -
  note defs = trim_def js_whitespace_def js_def sent_texts_def init_state_def
  from C10_send_message_iff_trimmed_nonempty [THEN conjunct1,
      of "init_state\<lparr>messageInput := [0x3000, 0x20] @ js ''hi there'' @ [0xFEFF, 0x0A]\<rparr>"]
  have 1: "sent_texts (handleSendMessage
      (init_state\<lparr>messageInput := [0x3000, 0x20] @ js ''hi there'' @ [0xFEFF, 0x0A]\<rparr>)) =
     [js ''hi there'']
   \<and> messageInput (handleSendMessage
      (init_state\<lparr>messageInput := [0x3000, 0x20] @ js ''hi there'' @ [0xFEFF, 0x0A]\<rparr>)) = []"
    by (simp add: defs)
  from C10_send_message_iff_trimmed_nonempty [THEN conjunct1,
      of "init_state\<lparr>messageInput := js '' x ''\<rparr>"]
  have 2: "sent_texts (handleSendMessage (init_state\<lparr>messageInput := js '' x ''\<rparr>)) = [js ''x'']"
    by (simp add: defs)
  from C10_send_message_iff_trimmed_nonempty [THEN conjunct1,
      of "init_state\<lparr>messageInput := [0x20, 0x2003, 0x3000]\<rparr>"]
  have 3: "handleSendMessage (init_state\<lparr>messageInput := [0x20, 0x2003, 0x3000]\<rparr>) =
       init_state\<lparr>messageInput := [0x20, 0x2003, 0x3000]\<rparr>"
    by (simp add: defs)
  from 1 2 3 show ?thesis by blast
qed

subsection \<open>What each operation does to the module variables\<close>

lemma emit_fields [simp]:
  "isRecording (emit e s) = isRecording s"
  "audioStreamer (emit e s) = audioStreamer s"
  "audioCtx (emit e s) = audioCtx s"
  "isConnected (emit e s) = isConnected s"
  "audioRecorder (emit e s) = audioRecorder s"
  "isVideoActive (emit e s) = isVideoActive s"
  "videoManager (emit e s) = videoManager s"
  "isScreenSharing (emit e s) = isScreenSharing s"
  "screenRecorder (emit e s) = screenRecorder s"
  "isUsingTool (emit e s) = isUsingTool s"
  "nextId (emit e s) = nextId s"
  "liveRecorders (emit e s) = liveRecorders s"
  "liveVideo (emit e s) = liveVideo s"
  "liveScreen (emit e s) = liveScreen s"
  by (simp_all add: emit_def)

lemma logMessage_fields [simp]:
  "isRecording (logMessage m k s) = isRecording s"
  "audioStreamer (logMessage m k s) = audioStreamer s"
  "audioCtx (logMessage m k s) = audioCtx s"
  "isConnected (logMessage m k s) = isConnected s"
  "audioRecorder (logMessage m k s) = audioRecorder s"
  "isVideoActive (logMessage m k s) = isVideoActive s"
  "videoManager (logMessage m k s) = videoManager s"
  "isScreenSharing (logMessage m k s) = isScreenSharing s"
  "screenRecorder (logMessage m k s) = screenRecorder s"
  "isUsingTool (logMessage m k s) = isUsingTool s"
  "nextId (logMessage m k s) = nextId s"
  "liveRecorders (logMessage m k s) = liveRecorders s"
  "liveVideo (logMessage m k s) = liveVideo s"
  "liveScreen (logMessage m k s) = liveScreen s"
  by (simp_all add: logMessage_def)

lemma setItem_fields [simp]:
  "isRecording (setItem k v s) = isRecording s"
  "audioStreamer (setItem k v s) = audioStreamer s"
  "audioCtx (setItem k v s) = audioCtx s"
  "isConnected (setItem k v s) = isConnected s"
  "audioRecorder (setItem k v s) = audioRecorder s"
  "isVideoActive (setItem k v s) = isVideoActive s"
  "videoManager (setItem k v s) = videoManager s"
  "isScreenSharing (setItem k v s) = isScreenSharing s"
  "screenRecorder (setItem k v s) = screenRecorder s"
  "isUsingTool (setItem k v s) = isUsingTool s"
  "nextId (setItem k v s) = nextId s"
  "liveRecorders (setItem k v s) = liveRecorders s"
  "liveVideo (setItem k v s) = liveVideo s"
  "liveScreen (setItem k v s) = liveScreen s"
  by (simp_all add: setItem_def)

lemma updateMicIcon_fields [simp]:
  "isRecording (updateMicIcon s) = isRecording s"
  "audioStreamer (updateMicIcon s) = audioStreamer s"
  "audioCtx (updateMicIcon s) = audioCtx s"
  "isConnected (updateMicIcon s) = isConnected s"
  "audioRecorder (updateMicIcon s) = audioRecorder s"
  "isVideoActive (updateMicIcon s) = isVideoActive s"
  "videoManager (updateMicIcon s) = videoManager s"
  "isScreenSharing (updateMicIcon s) = isScreenSharing s"
  "screenRecorder (updateMicIcon s) = screenRecorder s"
  "isUsingTool (updateMicIcon s) = isUsingTool s"
  "nextId (updateMicIcon s) = nextId s"
  "liveRecorders (updateMicIcon s) = liveRecorders s"
  "liveVideo (updateMicIcon s) = liveVideo s"
  "liveScreen (updateMicIcon s) = liveScreen s"
  by (simp_all add: updateMicIcon_def)

lemma updateAudioVisualizer_fields [simp]:
  "isRecording (updateAudioVisualizer v b s) = isRecording s"
  "audioStreamer (updateAudioVisualizer v b s) = audioStreamer s"
  "audioCtx (updateAudioVisualizer v b s) = audioCtx s"
  "isConnected (updateAudioVisualizer v b s) = isConnected s"
  "audioRecorder (updateAudioVisualizer v b s) = audioRecorder s"
  "isVideoActive (updateAudioVisualizer v b s) = isVideoActive s"
  "videoManager (updateAudioVisualizer v b s) = videoManager s"
  "isScreenSharing (updateAudioVisualizer v b s) = isScreenSharing s"
  "screenRecorder (updateAudioVisualizer v b s) = screenRecorder s"
  "isUsingTool (updateAudioVisualizer v b s) = isUsingTool s"
  "nextId (updateAudioVisualizer v b s) = nextId s"
  "liveRecorders (updateAudioVisualizer v b s) = liveRecorders s"
  "liveVideo (updateAudioVisualizer v b s) = liveVideo s"
  "liveScreen (updateAudioVisualizer v b s) = liveScreen s"
  by (simp_all add: updateAudioVisualizer_def)

lemma stopVideo_fields [simp]:
  "isRecording (stopVideo s) = isRecording s"
  "audioStreamer (stopVideo s) = audioStreamer s"
  "audioCtx (stopVideo s) = audioCtx s"
  "isConnected (stopVideo s) = isConnected s"
  "audioRecorder (stopVideo s) = audioRecorder s"
  "isVideoActive (stopVideo s) = False"
  "videoManager (stopVideo s) = None"
  "isScreenSharing (stopVideo s) = isScreenSharing s"
  "screenRecorder (stopVideo s) = screenRecorder s"
  "isUsingTool (stopVideo s) = isUsingTool s"
  "nextId (stopVideo s) = nextId s"
  "liveRecorders (stopVideo s) = liveRecorders s"
  "liveVideo (stopVideo s) = liveVideo s - set_option (videoManager s)"
  "liveScreen (stopVideo s) = liveScreen s"
  by (cases "videoManager s"; simp add: stopVideo_def)+

lemma stopScreenSharing_fields [simp]:
  "isRecording (stopScreenSharing s) = isRecording s"
  "audioStreamer (stopScreenSharing s) = audioStreamer s"
  "audioCtx (stopScreenSharing s) = audioCtx s"
  "isConnected (stopScreenSharing s) = isConnected s"
  "audioRecorder (stopScreenSharing s) = audioRecorder s"
  "isVideoActive (stopScreenSharing s) = isVideoActive s"
  "videoManager (stopScreenSharing s) = videoManager s"
  "isScreenSharing (stopScreenSharing s) = False"
  "screenRecorder (stopScreenSharing s) = None"
  "isUsingTool (stopScreenSharing s) = isUsingTool s"
  "nextId (stopScreenSharing s) = nextId s"
  "liveRecorders (stopScreenSharing s) = liveRecorders s"
  "liveVideo (stopScreenSharing s) = liveVideo s"
  "liveScreen (stopScreenSharing s) = liveScreen s - set_option (screenRecorder s)"
  by (cases "screenRecorder s"; simp add: stopScreenSharing_def)+

lemma recorder_stop_fields [simp]:
  "isRecording (recorder_stop s) = isRecording s"
  "audioStreamer (recorder_stop s) = audioStreamer s"
  "audioCtx (recorder_stop s) = audioCtx s"
  "isConnected (recorder_stop s) = isConnected s"
  "audioRecorder (recorder_stop s) = audioRecorder s"
  "isVideoActive (recorder_stop s) = isVideoActive s"
  "videoManager (recorder_stop s) = videoManager s"
  "isScreenSharing (recorder_stop s) = isScreenSharing s"
  "screenRecorder (recorder_stop s) = screenRecorder s"
  "isUsingTool (recorder_stop s) = isUsingTool s"
  "nextId (recorder_stop s) = nextId s"
  "liveRecorders (recorder_stop s) = liveRecorders s - set_option (audioRecorder s)"
  "liveVideo (recorder_stop s) = liveVideo s"
  "liveScreen (recorder_stop s) = liveScreen s"
  by (simp_all add: recorder_stop_def split: option.splits)

lemma disconnect_fields:
  "isConnected (disconnectFromWebsocket s) = False
   \<and> audioStreamer (disconnectFromWebsocket s) = map_option streamer_stop (audioStreamer s)
   \<and> isVideoActive (disconnectFromWebsocket s) = (isVideoActive s \<and> videoManager s = None)
   \<and> videoManager (disconnectFromWebsocket s) = None
   \<and> liveVideo (disconnectFromWebsocket s) = liveVideo s - set_option (videoManager s)
   \<and> isScreenSharing (disconnectFromWebsocket s) = (isScreenSharing s \<and> screenRecorder s = None)
   \<and> screenRecorder (disconnectFromWebsocket s) = None
   \<and> liveScreen (disconnectFromWebsocket s) = liveScreen s - set_option (screenRecorder s)
   \<and> isUsingTool (disconnectFromWebsocket s) = isUsingTool s
   \<and> audioRecorder (disconnectFromWebsocket s) =
       (if audioStreamer s = None then audioRecorder s else None)
   \<and> isRecording (disconnectFromWebsocket s) = (isRecording s \<and> audioStreamer s = None)
   \<and> liveRecorders (disconnectFromWebsocket s) =
       (if audioStreamer s = None then liveRecorders s
        else liveRecorders s - set_option (audioRecorder s))"
  by (cases "audioStreamer s"; cases "audioRecorder s"; cases "videoManager s";
      cases "screenRecorder s"; simp add: disconnectFromWebsocket_def)

lemma mic_catch_fields [simp]:
  "isRecording (mic_catch m s) = False"
  "audioStreamer (mic_catch m s) = audioStreamer s"
  "audioCtx (mic_catch m s) = audioCtx s"
  "isConnected (mic_catch m s) = isConnected s"
  "audioRecorder (mic_catch m s) = audioRecorder s"
  "isVideoActive (mic_catch m s) = isVideoActive s"
  "videoManager (mic_catch m s) = videoManager s"
  "isScreenSharing (mic_catch m s) = isScreenSharing s"
  "screenRecorder (mic_catch m s) = screenRecorder s"
  "isUsingTool (mic_catch m s) = isUsingTool s"
  "nextId (mic_catch m s) = nextId s"
  "liveRecorders (mic_catch m s) = liveRecorders s"
  "liveVideo (mic_catch m s) = liveVideo s"
  "liveScreen (mic_catch m s) = liveScreen s"
  by (simp_all add: mic_catch_def)

lemma ensure_fields [simp]:
  "isRecording (snd (ensureAudioInitialized env s)) = isRecording s"
  "isConnected (snd (ensureAudioInitialized env s)) = isConnected s"
  "audioRecorder (snd (ensureAudioInitialized env s)) = audioRecorder s"
  "isVideoActive (snd (ensureAudioInitialized env s)) = isVideoActive s"
  "videoManager (snd (ensureAudioInitialized env s)) = videoManager s"
  "isScreenSharing (snd (ensureAudioInitialized env s)) = isScreenSharing s"
  "screenRecorder (snd (ensureAudioInitialized env s)) = screenRecorder s"
  "isUsingTool (snd (ensureAudioInitialized env s)) = isUsingTool s"
  "nextId (snd (ensureAudioInitialized env s)) = nextId s"
  "liveRecorders (snd (ensureAudioInitialized env s)) = liveRecorders s"
  "liveVideo (snd (ensureAudioInitialized env s)) = liveVideo s"
  "liveScreen (snd (ensureAudioInitialized env s)) = liveScreen s"
  by (simp_all add: ensureAudioInitialized_def Let_def split: option.splits)

lemma ensure_streamer:
  "(audioStreamer s \<noteq> None \<longrightarrow> audioStreamer (snd (ensureAudioInitialized env s)) \<noteq> None)
   \<and> (fst (ensureAudioInitialized env s) = None \<longrightarrow>
        audioStreamer (snd (ensureAudioInitialized env s)) \<noteq> None)"
  by (auto simp: ensureAudioInitialized_def Let_def split: option.splits)

lemma resume_fields [simp]:
  "isRecording (resumeAudioContext s) = isRecording s"
  "audioStreamer (resumeAudioContext s) = audioStreamer s"
  "isConnected (resumeAudioContext s) = isConnected s"
  "audioRecorder (resumeAudioContext s) = audioRecorder s"
  "isVideoActive (resumeAudioContext s) = isVideoActive s"
  "videoManager (resumeAudioContext s) = videoManager s"
  "isScreenSharing (resumeAudioContext s) = isScreenSharing s"
  "screenRecorder (resumeAudioContext s) = screenRecorder s"
  "isUsingTool (resumeAudioContext s) = isUsingTool s"
  "nextId (resumeAudioContext s) = nextId s"
  "liveRecorders (resumeAudioContext s) = liveRecorders s"
  "liveVideo (resumeAudioContext s) = liveVideo s"
  "liveScreen (resumeAudioContext s) = liveScreen s"
  by (simp_all add: resumeAudioContext_def)

lemma connect_fields:
  "isRecording (snd (connectToWebsocket r s)) = isRecording s
   \<and> audioStreamer (snd (connectToWebsocket r s)) = audioStreamer s
   \<and> audioRecorder (snd (connectToWebsocket r s)) = audioRecorder s
   \<and> liveVideo (snd (connectToWebsocket r s)) = liveVideo s
   \<and> videoManager (snd (connectToWebsocket r s)) = videoManager s
   \<and> isVideoActive (snd (connectToWebsocket r s)) = isVideoActive s
   \<and> liveScreen (snd (connectToWebsocket r s)) = liveScreen s
   \<and> screenRecorder (snd (connectToWebsocket r s)) = screenRecorder s
   \<and> isScreenSharing (snd (connectToWebsocket r s)) = isScreenSharing s"
  by (cases r; simp add: connectToWebsocket_def Let_def)

lemma mic_fields:
  "liveVideo (handleMicToggle env s) = liveVideo s
   \<and> videoManager (handleMicToggle env s) = videoManager s
   \<and> isVideoActive (handleMicToggle env s) = isVideoActive s
   \<and> liveScreen (handleMicToggle env s) = liveScreen s
   \<and> screenRecorder (handleMicToggle env s) = screenRecorder s
   \<and> isScreenSharing (handleMicToggle env s) = isScreenSharing s"
proof -
  obtain err s1 where e: "ensureAudioInitialized (micInit env) s = (err, s1)"
    by (cases "ensureAudioInitialized (micInit env) s")
  from ensure_fields [of "micInit env" s] e
  have "liveVideo s1 = liveVideo s" "videoManager s1 = videoManager s"
    "isVideoActive s1 = isVideoActive s" "liveScreen s1 = liveScreen s"
    "screenRecorder s1 = screenRecorder s" "isScreenSharing s1 = isScreenSharing s"
    by simp_all
  with e show ?thesis
    by (simp add: handleMicToggle_def Let_def split: option.splits)
qed

lemma on_audio_fields:
  "liveVideo (on_audio pcm env s) = liveVideo s
   \<and> videoManager (on_audio pcm env s) = videoManager s
   \<and> isVideoActive (on_audio pcm env s) = isVideoActive s
   \<and> liveScreen (on_audio pcm env s) = liveScreen s
   \<and> screenRecorder (on_audio pcm env s) = screenRecorder s
   \<and> isScreenSharing (on_audio pcm env s) = isScreenSharing s
   \<and> audioRecorder (on_audio pcm env s) = audioRecorder s
   \<and> isRecording (on_audio pcm env s) = isRecording s
   \<and> (audioStreamer s \<noteq> None \<longrightarrow> audioStreamer (on_audio pcm env s) \<noteq> None)"
proof -
  obtain err s1 where e: "ensureAudioInitialized env (resumeAudioContext s) = (err, s1)"
    by (cases "ensureAudioInitialized env (resumeAudioContext s)")
  from ensure_fields [of env "resumeAudioContext s"] ensure_streamer [of "resumeAudioContext s" env] e
  have "liveVideo s1 = liveVideo s" "videoManager s1 = videoManager s"
    "isVideoActive s1 = isVideoActive s" "liveScreen s1 = liveScreen s"
    "screenRecorder s1 = screenRecorder s" "isScreenSharing s1 = isScreenSharing s"
    "audioRecorder s1 = audioRecorder s" "isRecording s1 = isRecording s"
    "audioStreamer s \<noteq> None \<longrightarrow> audioStreamer s1 \<noteq> None"
    by simp_all
  with e show ?thesis
    by (auto simp: on_audio_def split: option.splits)
qed

lemma event_fields:
  "liveVideo (handle_event e s) = liveVideo s
   \<and> videoManager (handle_event e s) = videoManager s
   \<and> isVideoActive (handle_event e s) = isVideoActive s
   \<and> liveScreen (handle_event e s) = liveScreen s
   \<and> screenRecorder (handle_event e s) = screenRecorder s
   \<and> isScreenSharing (handle_event e s) = isScreenSharing s
   \<and> audioRecorder (handle_event e s) = audioRecorder s
   \<and> isRecording (handle_event e s) = isRecording s
   \<and> (audioStreamer s \<noteq> None \<longrightarrow> audioStreamer (handle_event e s) \<noteq> None)"
proof (cases e)
  case (EvAudio pcm env)
  with on_audio_fields [of pcm env s] show ?thesis by simp
qed (auto simp: on_content_def on_interrupted_def on_turncomplete_def on_error_def
       on_message_def Let_def split: option.splits)

text \<open>Nothing but the handlers of the client's events assigns the tool-use flag.\<close>

lemma only_events_change_tool_flag:
  "isUsingTool (step a s) =
     (case a of Inbound e \<Rightarrow> isUsingTool (handle_event e s) | _ \<Rightarrow> isUsingTool s)"
proof (cases a)
  case (ClickConnect r)
  with disconnect_fields [of s] show ?thesis
    by (cases r) (simp_all add: connectToWebsocket_def Let_def)
next
  case (ClickMic env)
  obtain err s1 where e: "ensureAudioInitialized (micInit env) s = (err, s1)"
    by (cases "ensureAudioInitialized (micInit env) s")
  from ensure_fields(8) [of "micInit env" s] e have "isUsingTool s1 = isUsingTool s" by simp
  with ClickMic e show ?thesis
    by (simp add: handleMicToggle_def Let_def split: option.splits)
next
  case (ClickCamera r)
  then show ?thesis
    by (cases r; cases "videoManager s"; simp add: handleVideoToggle_def Let_def)
next
  case (ClickScreen r)
  then show ?thesis by (cases r; simp add: handleScreenShare_def Let_def)
next
  case (Edit c v)
  then show ?thesis by (cases c) simp_all
qed (simp_all add: handleSendMessage_def audio_chunk_callback_def video_frame_callback_def
       screen_frame_callback_def Let_def)

subsection \<open>Invariants of the reachable states\<close>

text \<open>Each action keeps the three invariants; first the one about the Playback Sink.\<close>

lemma sink_inv_mic: "sink_inv s \<Longrightarrow> sink_inv (handleMicToggle env s)"
proof (cases "isRecording s")
  case True
  assume "sink_inv s"
  with True show ?thesis by (auto simp: handleMicToggle_def sink_inv_def)
next
  case False
  assume a: "sink_inv s"
  obtain err s1 where e: "ensureAudioInitialized (micInit env) s = (err, s1)"
    by (cases "ensureAudioInitialized (micInit env) s")
  from ensure_fields [of "micInit env" s] ensure_streamer [of s "micInit env"] e
  have s1: "audioRecorder s1 = audioRecorder s" "isRecording s1 = isRecording s"
    "audioStreamer s \<noteq> None \<longrightarrow> audioStreamer s1 \<noteq> None"
    "err = None \<longrightarrow> audioStreamer s1 \<noteq> None" by simp_all
  show ?thesis
  proof (cases err)
    case (Some m)
    with False e s1 a show ?thesis by (auto simp: handleMicToggle_def sink_inv_def)
  next
    case None
    with s1 have st: "audioStreamer s1 \<noteq> None" by simp
    with False e None show ?thesis
      by (auto simp: handleMicToggle_def sink_inv_def Let_def split: option.splits)
  qed
qed

lemma sink_inv_step: "sink_inv s \<Longrightarrow> sink_inv (step a s)"
proof (cases a)
  case (Inbound e)
  assume "sink_inv s"
  with Inbound event_fields [of e s] show ?thesis by (auto simp: sink_inv_def)
next
  case (ClickConnect r)
  assume "sink_inv s"
  with ClickConnect disconnect_fields [of s] connect_fields [of r s] show ?thesis
    by (auto simp: sink_inv_def)
next
  case (ClickMic env)
  assume "sink_inv s"
  with ClickMic show ?thesis by (simp add: sink_inv_mic)
next
  case (Edit c v)
  assume "sink_inv s"
  with Edit show ?thesis by (cases c) (simp_all add: sink_inv_def)
next
  case (ClickCamera r)
  assume "sink_inv s"
  with ClickCamera show ?thesis
    by (cases r; cases "videoManager s"; simp add: sink_inv_def handleVideoToggle_def Let_def)
next
  case (ClickScreen r)
  assume "sink_inv s"
  with ClickScreen show ?thesis
    by (cases r; simp add: sink_inv_def handleScreenShare_def Let_def)
qed (simp_all add: sink_inv_def handleSendMessage_def audio_chunk_callback_def
       video_frame_callback_def screen_frame_callback_def Let_def)

text \<open>The camera.\<close>

lemma video_inv_toggle: "video_inv s \<Longrightarrow> video_inv (handleVideoToggle r s)"
  by (cases r; cases "videoManager s") (auto simp: video_inv_def handleVideoToggle_def Let_def)

lemma video_inv_step: "video_inv s \<Longrightarrow> video_inv (step a s)"
proof (cases a)
  case (Inbound e)
  assume "video_inv s"
  with Inbound event_fields [of e s] show ?thesis by (simp add: video_inv_def)
next
  case (ClickConnect r)
  assume "video_inv s"
  with ClickConnect disconnect_fields [of s] connect_fields [of r s] show ?thesis
    by (auto simp: video_inv_def)
next
  case (ClickMic env)
  assume "video_inv s"
  with ClickMic mic_fields [of env s] show ?thesis by (simp add: video_inv_def)
next
  case (Edit c v)
  assume "video_inv s"
  with Edit show ?thesis by (cases c) (simp_all add: video_inv_def)
next
  case (ClickCamera r)
  assume "video_inv s"
  with ClickCamera show ?thesis by (simp add: video_inv_toggle)
next
  case (ClickScreen r)
  assume "video_inv s"
  with ClickScreen show ?thesis
    by (cases r; simp add: video_inv_def handleScreenShare_def Let_def)
next
  case ClickStopVideo
  assume "video_inv s"
  with ClickStopVideo show ?thesis by (auto simp: video_inv_def)
qed (simp_all add: video_inv_def handleSendMessage_def audio_chunk_callback_def
       video_frame_callback_def screen_frame_callback_def Let_def)

text \<open>The screen sharing.\<close>

lemma screen_inv_toggle: "screen_inv s \<Longrightarrow> screen_inv (handleScreenShare r s)"
  by (cases r; cases "screenRecorder s") (auto simp: screen_inv_def handleScreenShare_def Let_def)

lemma screen_inv_step: "screen_inv s \<Longrightarrow> screen_inv (step a s)"
proof (cases a)
  case (Inbound e)
  assume "screen_inv s"
  with Inbound event_fields [of e s] show ?thesis by (simp add: screen_inv_def)
next
  case (ClickConnect r)
  assume "screen_inv s"
  with ClickConnect disconnect_fields [of s] connect_fields [of r s] show ?thesis
    by (auto simp: screen_inv_def)
next
  case (ClickMic env)
  assume "screen_inv s"
  with ClickMic mic_fields [of env s] show ?thesis by (simp add: screen_inv_def)
next
  case (Edit c v)
  assume "screen_inv s"
  with Edit show ?thesis by (cases c) (simp_all add: screen_inv_def)
next
  case (ClickCamera r)
  assume "screen_inv s"
  with ClickCamera show ?thesis
    by (cases r; cases "videoManager s"; simp add: screen_inv_def handleVideoToggle_def Let_def)
next
  case (ClickScreen r)
  assume "screen_inv s"
  with ClickScreen show ?thesis by (simp add: screen_inv_toggle)
qed (simp_all add: screen_inv_def handleSendMessage_def audio_chunk_callback_def
       video_frame_callback_def screen_frame_callback_def Let_def)

lemma reachable_inv: "reachable s \<Longrightarrow> sink_inv s \<and> video_inv s \<and> screen_inv s"
proof (induction rule: reachable.induct)
  case (reachable_initial s)
  then show ?case by (simp add: initial_def sink_inv_def video_inv_def screen_inv_def)
next
  case (reachable_step s a)
  then show ?case by (simp add: sink_inv_step video_inv_step screen_inv_step)
qed

lemma card_subset_option: "A \<subseteq> set_option x \<Longrightarrow> card A \<le> 1"
proof -
  assume a: "A \<subseteq> set_option x"
  have f: "finite (set_option x)" by (cases x) simp_all
  have "card (set_option x) \<le> 1" by (cases x) simp_all
  moreover have "card A \<le> card (set_option x)" using a f by (rule card_mono [rotated])
  ultimately show ?thesis by simp
qed

subsection \<open>Sessions\<close>

lemma reachable_run: "reachable s \<Longrightarrow> reachable (run acts s)"
  by (induction acts arbitrary: s) (auto intro: reachable_step)

lemmas session_defs = init_state_def connectToWebsocket_def
  disconnectFromWebsocket_def handleMicToggle_def ensureAudioInitialized_def mic_catch_def
  recorder_stop_def updateMicIcon_def logMessage_def emit_def setItem_def
  resumeAudioContext_def new_streamer_def streamer_stop_def browser_ok_def mic_ok_def
  mic_denied_late_def Let_def stopVideo_def stopScreenSharing_def handleVideoToggle_def
  handleScreenShare_def

lemma leaked_recorder_state:
  "isConnected (run leaked_recorder_session init_state) = False
   \<and> liveRecorders (run leaked_recorder_session init_state) = {0}
   \<and> audioRecorder (run leaked_recorder_session init_state) = None
   \<and> isUsingTool (run leaked_recorder_session init_state) = False"
  by (simp add: leaked_recorder_session_def session_defs)

lemma busy_state:
  "isConnected (run busy_session init_state)
   \<and> isRecording (run busy_session init_state)
   \<and> audioRecorder (run busy_session init_state) = Some 0
   \<and> liveRecorders (run busy_session init_state) = {0}
   \<and> audioStreamer (run busy_session init_state) = Some new_streamer
   \<and> videoManager (run busy_session init_state) = Some 1
   \<and> liveVideo (run busy_session init_state) = {1}
   \<and> screenRecorder (run busy_session init_state) = Some 2
   \<and> liveScreen (run busy_session init_state) = {2}"
  by (simp add: busy_session_def session_defs)

subsection \<open>Capture callbacks while the page is not connected\<close>

text \<open>
  Claim C5 has no chunk of any capture callback handed to the transport while the page is
  not connected. The camera and screen callbacks test \<open>isConnected\<close>; the microphone callback
  does not. At the end of the session with the leaked recorder the page is disconnected,
  recorder 0 is still live, and its chunk \<open>X\<close> goes to \<open>client.sendRealtimeInput\<close>.
\<close>

theorem C5_audio_chunk_passed_on_while_disconnected:
  "reachable (run leaked_recorder_session init_state)
   \<and> isConnected (run leaked_recorder_session init_state) = False
   \<and> enabled (AudioChunk 0 (js ''X'') [0]) (run leaked_recorder_session init_state)
   \<and> realtime_inputs (step (AudioChunk 0 (js ''X'') [0]) (run leaked_recorder_session init_state)) =
       realtime_inputs (run leaked_recorder_session init_state) @
         [[\<lparr>mimeType = (js ''audio/pcm;rate=16000''), data = (js ''X''), interrupt = None\<rparr>]]"
proof -
  let ?s = "run leaked_recorder_session init_state"
  have r: "reachable ?s" by (rule reachable_run) (rule reachable_initial, rule initial_init_state)
  have "effects (audio_chunk_callback (js ''X'') [0] ?s) = effects ?s @
      [ClientSendRealtimeInput
         [\<lparr>mimeType = (js ''audio/pcm;rate=16000''), data = (js ''X''), interrupt = None\<rparr>],
       UpdateAudioVisualizer (of_nat (fold max (map unat [0::8 word]) 0) / 255) True]"
    using leaked_recorder_state by (simp add: audio_chunk_callback_def updateAudioVisualizer_def)
  from realtime_inputs_append [OF this] r leaked_recorder_state show ?thesis by simp
qed

text \<open>What does hold of the three callbacks while the page is not connected.\<close>

lemma frames_dropped_while_disconnected:
  "\<not> isConnected s \<Longrightarrow> video_frame_callback f s = s \<and> screen_frame_callback d s = s"
  by (simp add: video_frame_callback_def screen_frame_callback_def)

lemma callbacks_make_no_connect_attempt:
  "connect_attempts (audio_chunk_callback d a s) = connect_attempts s
   \<and> connect_attempts (video_frame_callback f s) = connect_attempts s
   \<and> connect_attempts (screen_frame_callback d s) = connect_attempts s"
  by (simp add: connect_attempts_def audio_chunk_callback_def video_frame_callback_def
      screen_frame_callback_def updateAudioVisualizer_def)

subsection \<open>Camera and screen producers\<close>

text \<open>
  Claim C8, as the code has it. Whatever has happened to the page, each handler having run
  to its end, at most one camera producer and at most one screen producer is live. A
  toggle while the camera (the sharing) is active stops it and starts nothing, so none is
  live afterwards; a toggle while it is not active, with a successful start, leaves exactly
  one live.
\<close>

theorem C8_at_most_one_live_producer:
  assumes "reachable s"
  shows "card (liveVideo s) \<le> 1 \<and> card (liveScreen s) \<le> 1
         \<and> (isVideoActive s \<longrightarrow> liveVideo (handleVideoToggle r s) = {})
         \<and> (\<not> isVideoActive s \<longrightarrow> card (liveVideo (handleVideoToggle None s)) = 1)
         \<and> (isScreenSharing s \<longrightarrow> liveScreen (handleScreenShare r s) = {})
         \<and> (\<not> isScreenSharing s \<longrightarrow> card (liveScreen (handleScreenShare None s)) = 1)"
proof -
  from reachable_inv [OF assms] have v: "video_inv s" and sc: "screen_inv s" by simp_all
  from v have "liveVideo s \<subseteq> set_option (videoManager s)" by (simp add: video_inv_def)
  then have 1: "card (liveVideo s) \<le> 1" by (rule card_subset_option)
  from sc have "liveScreen s \<subseteq> set_option (screenRecorder s)" by (simp add: screen_inv_def)
  then have 2: "card (liveScreen s) \<le> 1" by (rule card_subset_option)
  have 3: "isVideoActive s \<longrightarrow> liveVideo (handleVideoToggle r s) = {}"
    using v by (auto simp: video_inv_def handleVideoToggle_def Let_def)
  have 4: "\<not> isVideoActive s \<longrightarrow> card (liveVideo (handleVideoToggle None s)) = 1"
    using v by (cases "videoManager s") (auto simp: video_inv_def handleVideoToggle_def Let_def)
  have 5: "isScreenSharing s \<longrightarrow> liveScreen (handleScreenShare r s) = {}"
    using sc by (auto simp: screen_inv_def handleScreenShare_def Let_def)
  have 6: "\<not> isScreenSharing s \<longrightarrow> card (liveScreen (handleScreenShare None s)) = 1"
    using sc by (auto simp: screen_inv_def handleScreenShare_def Let_def)
  from 1 2 3 4 5 6 show ?thesis by blast
qed

theorem C8_at_most_one_live_producer_witness:
  "reachable (run busy_session init_state)
   \<and> isVideoActive (run busy_session init_state)
   \<and> isScreenSharing (run busy_session init_state)
   \<and> card (liveVideo (run busy_session init_state)) \<le> 1
   \<and> card (liveScreen (run busy_session init_state)) \<le> 1
   \<and> liveVideo (handleVideoToggle None (run busy_session init_state)) = {}
   \<and> liveScreen (handleScreenShare None (run busy_session init_state)) = {}
   \<and> reachable init_state
   \<and> card (liveVideo (handleVideoToggle None init_state)) = 1
   \<and> card (liveScreen (handleScreenShare None init_state)) = 1"
proof -
  have r0: "reachable init_state" by (rule reachable_initial) (rule initial_init_state)
  have r: "reachable (run busy_session init_state)" using r0 by (rule reachable_run)
  have a: "isVideoActive (run busy_session init_state)"
    "isScreenSharing (run busy_session init_state)"
    by (simp_all add: busy_session_def session_defs)
  have b: "\<not> isVideoActive init_state" "\<not> isScreenSharing init_state"
    by (simp_all add: init_state_def)
  from C8_at_most_one_live_producer [OF r, of None] C8_at_most_one_live_producer [OF r0, of None]
    r r0 a b
  show ?thesis by simp
qed

text \<open>The claim as written has two consecutive start requests leave exactly one producer
  active; the second click on the button is a stop.\<close>

theorem C8_two_toggles_counterexample:
  "card (liveVideo (run [ClickCamera None] init_state)) = 1
   \<and> card (liveVideo (run [ClickCamera None, ClickCamera None] init_state)) = 0
   \<and> card (liveScreen (run [ClickScreen None] init_state)) = 1
   \<and> card (liveScreen (run [ClickScreen None, ClickScreen None] init_state)) = 0"
  by (simp add: session_defs)

subsection \<open>Disconnecting\<close>

lemma two_recorders_state:
  "isConnected (run two_recorders_session init_state)
   \<and> isRecording (run two_recorders_session init_state)
   \<and> audioRecorder (run two_recorders_session init_state) = Some 1
   \<and> liveRecorders (run two_recorders_session init_state) = {0, 1}
   \<and> audioStreamer (run two_recorders_session init_state) = Some new_streamer"
  by (auto simp: two_recorders_session_def session_defs)

text \<open>
  Claim C9 has \<open>disconnectFromWebsocket\<close> tear the whole session down, the audio recorder
  stopped among the rest. The function stops what the module variables hold. In the session
  with two recorders the page is connected and both recorders are live, recorder 1 in the
  variable; after \<open>disconnectFromWebsocket\<close> recorder 0 is still live and still calls back.
\<close>

theorem C9_started_recorder_survives_disconnect:
  "reachable (run two_recorders_session init_state)
   \<and> isConnected (run two_recorders_session init_state)
   \<and> audioRecorder (run two_recorders_session init_state) = Some 1
   \<and> liveRecorders (run two_recorders_session init_state) = {0, 1}
   \<and> isConnected (disconnectFromWebsocket (run two_recorders_session init_state)) = False
   \<and> liveRecorders (disconnectFromWebsocket (run two_recorders_session init_state)) = {0}
   \<and> enabled (AudioChunk 0 (js ''X'') [0])
        (disconnectFromWebsocket (run two_recorders_session init_state))"
proof -
  let ?s = "run two_recorders_session init_state"
  have r: "reachable ?s" by (rule reachable_run) (rule reachable_initial, rule initial_init_state)
  have "liveRecorders (disconnectFromWebsocket ?s) = {0}"
    using disconnect_fields [of ?s] two_recorders_state by auto
  with r disconnect_fields [of ?s] two_recorders_state show ?thesis by simp
qed

text \<open>
  The same happens to a screen producer when two clicks on the screen button overlap: line
  549 replaces the recorder in the variable while the first \<open>start\<close> is pending, both
  producers become live, and \<open>disconnectFromWebsocket\<close> stops the one in the variable.
\<close>

lemma handleScreenShare_split:
  "handleScreenShare startRejects s =
     (case handleScreenShare_begin s of
        (None, t) \<Rightarrow> t
      | (Some r, t) \<Rightarrow> handleScreenShare_resume r startRejects t)"
  by (cases startRejects)
     (simp_all add: handleScreenShare_def handleScreenShare_begin_def
        handleScreenShare_resume_def Let_def)

lemma overlapped_screen_starts_leave_one_live:
  "isConnected overlapped_screen_starts
   \<and> screenRecorder overlapped_screen_starts = Some 1
   \<and> liveScreen overlapped_screen_starts = {0, 1}
   \<and> liveScreen (disconnectFromWebsocket overlapped_screen_starts) = {0}"
proof -
  let ?s0 = "run [Edit ApiKeyInput (js ''key''), ClickConnect None] init_state"
  have s0: "isConnected ?s0 \<and> \<not> isScreenSharing ?s0 \<and> nextId ?s0 = 0 \<and> liveScreen ?s0 = {}"
    by (simp add: session_defs)
  then have "isConnected overlapped_screen_starts
      \<and> screenRecorder overlapped_screen_starts = Some 1
      \<and> liveScreen overlapped_screen_starts = {0, 1}"
    by (auto simp: overlapped_screen_starts_def handleScreenShare_begin_def
        handleScreenShare_resume_def Let_def)
  with disconnect_fields [of overlapped_screen_starts] show ?thesis by auto
qed

text \<open>
  What \<open>disconnectFromWebsocket\<close> does achieve, in every state the page reaches with its
  handlers run one after the other: the page is not connected, the Playback Sink (if there
  is one) is halted, the recorder in \<open>audioRecorder\<close> is stopped and the variable and the
  recording flag are cleared, and no camera or screen producer is live, their variables
  and flags cleared.
\<close>

lemma disconnect_clears_what_the_variables_hold:
  assumes "reachable s"
  shows "\<not> isConnected (disconnectFromWebsocket s)
         \<and> (case audioStreamer (disconnectFromWebsocket s) of
               None \<Rightarrow> audioStreamer s = None
             | Some st \<Rightarrow> halted st)
         \<and> audioRecorder (disconnectFromWebsocket s) = None
         \<and> liveRecorders (disconnectFromWebsocket s) =
             liveRecorders s - set_option (audioRecorder s)
         \<and> \<not> isRecording (disconnectFromWebsocket s)
         \<and> liveVideo (disconnectFromWebsocket s) = {}
         \<and> videoManager (disconnectFromWebsocket s) = None
         \<and> \<not> isVideoActive (disconnectFromWebsocket s)
         \<and> liveScreen (disconnectFromWebsocket s) = {}
         \<and> screenRecorder (disconnectFromWebsocket s) = None
         \<and> \<not> isScreenSharing (disconnectFromWebsocket s)"
proof -
  from reachable_inv [OF assms]
  have a: "sink_inv s" and v: "video_inv s" and sc: "screen_inv s" by simp_all
  note d = disconnect_fields [of s]
  have sink: "case audioStreamer (disconnectFromWebsocket s) of
               None \<Rightarrow> audioStreamer s = None
             | Some st \<Rightarrow> halted st"
    using d by (cases "audioStreamer s") (simp_all add: streamer_stop_def halted_def)
  have rec: "audioRecorder (disconnectFromWebsocket s) = None
      \<and> liveRecorders (disconnectFromWebsocket s) = liveRecorders s - set_option (audioRecorder s)
      \<and> \<not> isRecording (disconnectFromWebsocket s)"
    using d a by (cases "audioStreamer s") (auto simp: sink_inv_def)
  have vid: "liveVideo (disconnectFromWebsocket s) = {}
      \<and> videoManager (disconnectFromWebsocket s) = None
      \<and> \<not> isVideoActive (disconnectFromWebsocket s)"
    using d v by (auto simp: video_inv_def)
  have scr: "liveScreen (disconnectFromWebsocket s) = {}
      \<and> screenRecorder (disconnectFromWebsocket s) = None
      \<and> \<not> isScreenSharing (disconnectFromWebsocket s)"
    using d sc by (auto simp: screen_inv_def)
  from d sink rec vid scr show ?thesis by simp
qed

text \<open>The recorder is stopped inside the test for a Playback Sink (lines 346 to 354). In a
  state with a recorder and no sink the recorder would stay live; the page reaches no such
  state.\<close>

lemma disconnect_without_sink_keeps_recorder:
  "isRecording (disconnectFromWebsocket
      (init_state\<lparr>isRecording := True, audioRecorder := Some 0, liveRecorders := {0}\<rparr>))
   \<and> liveRecorders (disconnectFromWebsocket
      (init_state\<lparr>isRecording := True, audioRecorder := Some 0, liveRecorders := {0}\<rparr>)) = {0}
   \<and> \<not> reachable (init_state\<lparr>isRecording := True, audioRecorder := Some 0, liveRecorders := {0}\<rparr>)"
proof -
  let ?s = "init_state\<lparr>isRecording := True, audioRecorder := Some 0, liveRecorders := {0}\<rparr>"
  have n: "audioStreamer ?s = None" by (simp add: init_state_def)
  have "\<not> sink_inv ?s" by (simp add: sink_inv_def init_state_def)
  then have "\<not> reachable ?s" using reachable_inv by blast
  moreover from disconnect_fields [of ?s] n
  have "isRecording (disconnectFromWebsocket ?s) \<and> liveRecorders (disconnectFromWebsocket ?s) = {0}"
    by (simp add: init_state_def)
  ultimately show ?thesis by simp
qed

end
